theory Spec2Isabelle
  imports Complex_Main "HOL-Library.Log_Nat" "HOL-Library.Sublist"
begin

section \<open>Python values, exceptions and the world outside the agent\<close>

text \<open>
  The values that travel through \<^verbatim>\<open>loanagent.py\<close> and \<^verbatim>\<open>loan_runner.py\<close>:
  \<^verbatim>\<open>Dict[str, Any]\<close> mappings, JSON documents and their scalars. A dict is an association
  list in insertion order. A \<^verbatim>\<open>float\<close> is represented by the rational number it denotes;
  NaN and the infinities are not represented. A \<^verbatim>\<open>str\<close> is a list of characters whose
  code points lie below 256.
\<close>

datatype pyval =
    PyNone
  | PyBool bool
  | PyInt int
  | PyFloat rat
  | PyStr string
  | PyList "pyval list"
  | PyDict "(string \<times> pyval) list"

type_synonym pydict = "(string \<times> pyval) list"

text \<open>
  The result of a float operation is the exact result rounded to the nearest binary64
  number, ties to even (53 significant bits). \<open>fl\<close> itself does not bound the exponent:
  the subnormal numbers, the signed zero and the overflow of a float operation to infinity
  are not represented. A rounded value is a finite binary64 number when its magnitude is
  below \<open>2 ^ 1024\<close>; the conversion of an \<^verbatim>\<open>int\<close> whose rounded value is not, fails in
  Python (\<^verbatim>\<open>OverflowError\<close>).
\<close>

definition round_half_even :: "rat \<Rightarrow> int" where
  "round_half_even x =
     (let f = \<lfloor>x\<rfloor>; d = x - of_int f in
      if d < 1 / 2 then f else if 1 / 2 < d then f + 1 else if even f then f else f + 1)"

definition fl :: "rat \<Rightarrow> rat" where
  "fl x =
     (if x = 0 then 0
      else
        (let (p, q) = quotient_of \<bar>x\<bar>;
             e0 = bitlen p - bitlen q - 53;
             e = (if 2 ^ 53 \<le> \<bar>x\<bar> / power_int 2 e0 then e0 + 1 else e0)
         in of_int (round_half_even (x / power_int 2 e)) * power_int 2 e))"

definition binary64_finite :: "rat \<Rightarrow> bool" where
  "binary64_finite x = (\<bar>x\<bar> < 2 ^ 1024)"

text \<open>
  What pydantic reports about one field: the key is absent, or its value cannot be turned
  into the annotated type.
\<close>

datatype field_error = Missing | Invalid

text \<open>
  The exceptions of the program, all subclasses of Python's \<^verbatim>\<open>Exception\<close>.
  \<open>Exception msg\<close> stands for any other \<^verbatim>\<open>Exception\<close> a collaborator raises (I/O, PDF
  syntax, network, authentication, rate limit). The string an exception carries is its
  message (a \<^verbatim>\<open>KeyError\<close> carries the key); the message of a \<^verbatim>\<open>ValidationError\<close> is rendered
  by the library from the field errors.
  \<^verbatim>\<open>KeyboardInterrupt\<close> and \<^verbatim>\<open>SystemExit\<close>, which \<^verbatim>\<open>except Exception\<close> lets through,
  are signals from outside the program and are not represented.
\<close>

datatype exn =
    ValueError string
  | ValidationError "(string \<times> field_error) list"
  | OutputParserException string
  | KeyError string
  | TypeError string
  | ZeroDivisionError string
  | Exception string

datatype role = System | Human

type_synonym message = "role \<times> string"

text \<open>\<^verbatim>\<open>ChatOpenAI(openai_api_key=api_key, model_name=model_name, temperature=0)\<close>\<close>

record ChatOpenAI =
  openai_api_key :: string
  model_name :: string
  temperature :: int

text \<open>
  The observable state around a call: what was printed, which documents the PDF loader
  was asked for, which prompts went to the language model, and the caller's dicts, each
  under the reference the caller passes to the agent.
\<close>

record world =
  stdout :: "string list"
  pdf_loads :: "string list"
  llm_calls :: "(ChatOpenAI \<times> message list) list"
  heap :: "nat \<Rightarrow> pydict"

text \<open>
  The two effectful collaborators, which are not code of this repository:
  \<^verbatim>\<open>PyPDFLoader(pdf_path).load()\<close>, giving the \<^verbatim>\<open>page_content\<close> of each page or raising,
  and \<^verbatim>\<open>ChatOpenAI.invoke(messages).content\<close>, giving the response text or raising.
  Their answer may depend on everything that happened before.
\<close>

record services =
  PyPDFLoader_load :: "world \<Rightarrow> string \<Rightarrow> exn + string list"
  ChatOpenAI_invoke :: "world \<Rightarrow> ChatOpenAI \<Rightarrow> message list \<Rightarrow> exn + string"

text \<open>
  The pure library functions the agent relies on, which are not code of this repository:
  pydantic's coercion of a value that does not already have the annotated type, its
  rendering of a \<^verbatim>\<open>ValidationError\<close>, Python's \<^verbatim>\<open>repr\<close> of a float (used by \<^verbatim>\<open>json.dumps\<close>),
  the JSON reader of the output parser (\<open>None\<close> when the text holds no JSON document), the
  messages of its \<^verbatim>\<open>OutputParserException\<close>, and the schema description returned by
  \<^verbatim>\<open>get_format_instructions()\<close>.
\<close>

record library =
  coerce_str :: "pyval \<Rightarrow> string option"
  coerce_float :: "pyval \<Rightarrow> rat option"
  coerce_int :: "pyval \<Rightarrow> int option"
  coerce_bool :: "pyval \<Rightarrow> bool option"
  validation_error_str :: "(string \<times> field_error) list \<Rightarrow> string"
  float_repr :: "rat \<Rightarrow> string"
  parse_json :: "string \<Rightarrow> pyval option"
  invalid_json_str :: "string \<Rightarrow> string"
  failed_parse_str :: "pyval \<Rightarrow> (string \<times> field_error) list \<Rightarrow> string"
  get_format_instructions :: string

subsection \<open>Printing and rendering\<close>

definition print :: "string \<Rightarrow> world \<Rightarrow> world" where
  "print s w = w\<lparr>stdout := stdout w @ [s]\<rparr>"

definition digit_char :: "nat \<Rightarrow> char" where
  "digit_char d = ''0123456789'' ! (d mod 10)"

fun show_nat :: "nat \<Rightarrow> string" where
  "show_nat n = (if n < 10 then [digit_char n] else show_nat (n div 10) @ [digit_char n])"

declare show_nat.simps [simp del]

definition show_int :: "int \<Rightarrow> string" where
  "show_int i = (if i < 0 then CHR ''-'' # show_nat (nat (- i)) else show_nat (nat i))"

text \<open>\<^verbatim>\<open>sep.join(parts)\<close>\<close>

fun join :: "string \<Rightarrow> string list \<Rightarrow> string" where
  "join sep [] = []"
| "join sep [x] = x"
| "join sep (x # y # ys) = x @ sep @ join sep (y # ys)"

text \<open>
  \<^verbatim>\<open>str(e)\<close>, as the f-strings of the two \<^verbatim>\<open>except\<close> blocks use it. That of a
  \<^verbatim>\<open>KeyError\<close> is the \<^verbatim>\<open>repr\<close> of the key: the key between single quotes, for the keys of
  this program, which hold neither a quote nor a character to escape.
\<close>

fun exn_str :: "library \<Rightarrow> exn \<Rightarrow> string" where
  "exn_str lib (ValueError m) = m"
| "exn_str lib (ValidationError errs) = validation_error_str lib errs"
| "exn_str lib (OutputParserException m) = m"
| "exn_str lib (KeyError k) = CHR 0x27 # k @ [CHR 0x27]"
| "exn_str lib (TypeError m) = m"
| "exn_str lib (ZeroDivisionError m) = m"
| "exn_str lib (Exception m) = m"

section \<open>The document loader\<close>

text \<open>
  The \<^verbatim>\<open>try\<close> suite of \<^verbatim>\<open>load_policy_text\<close>: one call of the PDF loader, the pages joined by
  a blank line, one line printed.
\<close>

definition load_policy_text_try ::
  "services \<Rightarrow> string \<Rightarrow> world \<Rightarrow> (exn + string) \<times> world" where
  "load_policy_text_try svc pdf_path w =
     (let w1 = w\<lparr>pdf_loads := pdf_loads w @ [pdf_path]\<rparr> in
      case PyPDFLoader_load svc w pdf_path of
        Inl e \<Rightarrow> (Inl e, w1)
      | Inr documents \<Rightarrow>
          (let policy_text = join [CHR 0x0A, CHR 0x0A] documents in
           (Inr policy_text,
            print (''Loaded policy document: '' @ show_nat (length policy_text) @ '' characters'') w1)))"

text \<open>
  \<^verbatim>\<open>load_policy_text\<close>: the \<^verbatim>\<open>except Exception\<close> block prints the error and returns the
  empty string.
\<close>

definition load_policy_text ::
  "library \<Rightarrow> services \<Rightarrow> string \<Rightarrow> world \<Rightarrow> (exn + string) \<times> world" where
  "load_policy_text lib svc pdf_path w =
     (case load_policy_text_try svc pdf_path w of
        (Inr policy_text, w1) \<Rightarrow> (Inr policy_text, w1)
      | (Inl e, w1) \<Rightarrow> (Inr [], print (''Error loading PDF: '' @ exn_str lib e) w1))"

section \<open>The data models\<close>

record LoanApplication =
  applicantId :: string
  requestedAmount :: rat
  annualIncome :: rat
  monthlyDebt :: rat
  creditScore :: int
  employmentMonths :: int
  isFirstTimeBuyer :: bool
  isSelfEmployed :: bool

record LoanDecision =
  decision :: string
  reasoning :: string
  riskLevel :: string
  appliedRules :: "string list"

subsection \<open>pydantic's validation against the annotated types\<close>

text \<open>
  A value that already has the annotated type is taken as it is. An \<^verbatim>\<open>int\<close> given for a
  \<^verbatim>\<open>float\<close> is converted when it lies in the range of binary64, and is invalid beyond it
  (the conversion overflows, and the construction of the model raises). What happens to
  any other value depends on the library. None of the two models declares a constraint
  on the range of a field.
\<close>

definition validate_str :: "library \<Rightarrow> pyval \<Rightarrow> string option" where
  "validate_str lib v = (case v of PyStr s \<Rightarrow> Some s | _ \<Rightarrow> coerce_str lib v)"

definition validate_float :: "library \<Rightarrow> pyval \<Rightarrow> rat option" where
  "validate_float lib v =
     (case v of
        PyFloat x \<Rightarrow> Some x
      | PyInt i \<Rightarrow>
          if binary64_finite (fl (of_int i)) then Some (fl (of_int i)) else None
      | _ \<Rightarrow> coerce_float lib v)"

definition validate_int :: "library \<Rightarrow> pyval \<Rightarrow> int option" where
  "validate_int lib v = (case v of PyInt i \<Rightarrow> Some i | _ \<Rightarrow> coerce_int lib v)"

definition validate_bool :: "library \<Rightarrow> pyval \<Rightarrow> bool option" where
  "validate_bool lib v = (case v of PyBool b \<Rightarrow> Some b | _ \<Rightarrow> coerce_bool lib v)"

definition validate_str_list :: "library \<Rightarrow> pyval \<Rightarrow> string list option" where
  "validate_str_list lib v =
     (case v of PyList xs \<Rightarrow> those (map (validate_str lib) xs) | _ \<Rightarrow> None)"

text \<open>One required field: looked up by name, then validated.\<close>

definition field ::
  "(pyval \<Rightarrow> 'a option) \<Rightarrow> pydict \<Rightarrow> string \<Rightarrow> (string \<times> field_error) list + 'a" where
  "field validate d k =
     (case map_of d k of
        None \<Rightarrow> Inl [(k, Missing)]
      | Some v \<Rightarrow> (case validate v of None \<Rightarrow> Inl [(k, Invalid)] | Some x \<Rightarrow> Inr x))"

definition errors_of :: "(string \<times> field_error) list + 'a \<Rightarrow> (string \<times> field_error) list" where
  "errors_of r = (case r of Inl errs \<Rightarrow> errs | Inr _ \<Rightarrow> [])"

text \<open>
  \<^verbatim>\<open>LoanApplication(**application_data)\<close>: every field is required, keys that are not fields
  are ignored, and the errors of all fields are raised together as one
  \<^verbatim>\<open>ValidationError\<close>.
\<close>

definition LoanApplication_init :: "library \<Rightarrow> pydict \<Rightarrow> exn + LoanApplication" where
  "LoanApplication_init lib d =
     (let f1 = field (validate_str lib) d ''applicantId'';
          f2 = field (validate_float lib) d ''requestedAmount'';
          f3 = field (validate_float lib) d ''annualIncome'';
          f4 = field (validate_float lib) d ''monthlyDebt'';
          f5 = field (validate_int lib) d ''creditScore'';
          f6 = field (validate_int lib) d ''employmentMonths'';
          f7 = field (validate_bool lib) d ''isFirstTimeBuyer'';
          f8 = field (validate_bool lib) d ''isSelfEmployed'';
          err = Inl (ValidationError (errors_of f1 @ errors_of f2 @ errors_of f3 @ errors_of f4
                  @ errors_of f5 @ errors_of f6 @ errors_of f7 @ errors_of f8))
      in
      case f1 of Inl _ \<Rightarrow> err | Inr v1 \<Rightarrow>
     (case f2 of Inl _ \<Rightarrow> err | Inr v2 \<Rightarrow>
     (case f3 of Inl _ \<Rightarrow> err | Inr v3 \<Rightarrow>
     (case f4 of Inl _ \<Rightarrow> err | Inr v4 \<Rightarrow>
     (case f5 of Inl _ \<Rightarrow> err | Inr v5 \<Rightarrow>
     (case f6 of Inl _ \<Rightarrow> err | Inr v6 \<Rightarrow>
     (case f7 of Inl _ \<Rightarrow> err | Inr v7 \<Rightarrow>
     (case f8 of Inl _ \<Rightarrow> err | Inr v8 \<Rightarrow>
        Inr \<lparr>applicantId = v1, requestedAmount = v2, annualIncome = v3, monthlyDebt = v4,
             creditScore = v5, employmentMonths = v6, isFirstTimeBuyer = v7,
             isSelfEmployed = v8\<rparr>))))))))"

text \<open>\<^verbatim>\<open>application.dict()\<close>: the fields in the order of their declaration.\<close>

definition LoanApplication_dict :: "LoanApplication \<Rightarrow> pydict" where
  "LoanApplication_dict a =
     [(''applicantId'', PyStr (applicantId a)),
      (''requestedAmount'', PyFloat (requestedAmount a)),
      (''annualIncome'', PyFloat (annualIncome a)),
      (''monthlyDebt'', PyFloat (monthlyDebt a)),
      (''creditScore'', PyInt (creditScore a)),
      (''employmentMonths'', PyInt (employmentMonths a)),
      (''isFirstTimeBuyer'', PyBool (isFirstTimeBuyer a)),
      (''isSelfEmployed'', PyBool (isSelfEmployed a))]"

text \<open>
  Validation of a parsed JSON document against \<^verbatim>\<open>LoanDecision\<close>: it must be an object with
  the four fields, \<^verbatim>\<open>decision\<close>, \<^verbatim>\<open>reasoning\<close> and \<^verbatim>\<open>riskLevel\<close> of type \<^verbatim>\<open>str\<close> and
  \<^verbatim>\<open>appliedRules\<close> of type \<^verbatim>\<open>List[str]\<close>. The \<^verbatim>\<open>description\<close> of a \<^verbatim>\<open>Field\<close> is text for the
  schema description; it does not restrict the values.
\<close>

definition LoanDecision_validate ::
  "library \<Rightarrow> pyval \<Rightarrow> (string \<times> field_error) list + LoanDecision" where
  "LoanDecision_validate lib obj =
     (case obj of
        PyDict d \<Rightarrow>
          (let f1 = field (validate_str lib) d ''decision'';
               f2 = field (validate_str lib) d ''reasoning'';
               f3 = field (validate_str lib) d ''riskLevel'';
               f4 = field (validate_str_list lib) d ''appliedRules'';
               err = Inl (errors_of f1 @ errors_of f2 @ errors_of f3 @ errors_of f4)
           in
           case f1 of Inl _ \<Rightarrow> err | Inr v1 \<Rightarrow>
          (case f2 of Inl _ \<Rightarrow> err | Inr v2 \<Rightarrow>
          (case f3 of Inl _ \<Rightarrow> err | Inr v3 \<Rightarrow>
          (case f4 of Inl _ \<Rightarrow> err | Inr v4 \<Rightarrow>
             Inr \<lparr>decision = v1, reasoning = v2, riskLevel = v3, appliedRules = v4\<rparr>))))
      | _ \<Rightarrow> Inl [(''__root__'', Invalid)])"

section \<open>Serialising the application: \<^verbatim>\<open>json.dumps(..., indent=2)\<close>\<close>

definition hex_char :: "nat \<Rightarrow> char" where
  "hex_char d = ''0123456789abcdef'' ! (d mod 16)"

text \<open>
  \<^verbatim>\<open>ensure_ascii\<close> is on by default: the backslash, the double quote and every character
  outside the range from the space to the tilde are escaped.
\<close>

definition json_escape_char :: "char \<Rightarrow> string" where
  "json_escape_char c =
     (if c = CHR 0x5C then [CHR 0x5C, CHR 0x5C]
      else if c = CHR 0x22 then [CHR 0x5C, CHR 0x22]
      else if c = CHR 0x08 then [CHR 0x5C, CHR ''b'']
      else if c = CHR 0x0C then [CHR 0x5C, CHR ''f'']
      else if c = CHR 0x0A then [CHR 0x5C, CHR ''n'']
      else if c = CHR 0x0D then [CHR 0x5C, CHR ''r'']
      else if c = CHR 0x09 then [CHR 0x5C, CHR ''t'']
      else if (of_char c :: nat) < 32 \<or> 126 < (of_char c :: nat)
        then [CHR 0x5C, CHR ''u'', CHR ''0'', CHR ''0'',
              hex_char (of_char c div 16), hex_char (of_char c)]
      else [c])"

definition json_str :: "string \<Rightarrow> string" where
  "json_str s = CHR 0x22 # concat (map json_escape_char s) @ [CHR 0x22]"

definition newline_indent :: "nat \<Rightarrow> nat \<Rightarrow> string" where
  "newline_indent indent level = CHR 0x0A # replicate (indent * level) CHR '' ''"

fun json_dumps :: "library \<Rightarrow> nat \<Rightarrow> nat \<Rightarrow> pyval \<Rightarrow> string" where
  "json_dumps lib indent level PyNone = ''null''"
| "json_dumps lib indent level (PyBool b) = (if b then ''true'' else ''false'')"
| "json_dumps lib indent level (PyInt i) = show_int i"
| "json_dumps lib indent level (PyFloat x) = float_repr lib x"
| "json_dumps lib indent level (PyStr s) = json_str s"
| "json_dumps lib indent level (PyList xs) =
     (if xs = [] then ''[]''
      else ''['' @ newline_indent indent (Suc level)
           @ join (CHR '','' # newline_indent indent (Suc level))
                  (map (json_dumps lib indent (Suc level)) xs)
           @ newline_indent indent level @ '']'')"
| "json_dumps lib indent level (PyDict kvs) =
     (if kvs = [] then ''{}''
      else ''{'' @ newline_indent indent (Suc level)
           @ join (CHR '','' # newline_indent indent (Suc level))
                  (map (\<lambda>(k, v). json_str k @ '': '' @ json_dumps lib indent (Suc level) v) kvs)
           @ newline_indent indent level @ ''}'')"

section \<open>The prompt template\<close>

text \<open>
  A template is its literal text with named placeholders; \<^verbatim>\<open>format_messages\<close> puts the
  keyword arguments in their places and raises \<^verbatim>\<open>KeyError\<close> for a placeholder without
  argument.
\<close>

datatype piece = Lit string | Var string

type_synonym template = "(role \<times> piece list) list"

fun format_pieces :: "(string \<times> string) list \<Rightarrow> piece list \<Rightarrow> exn + string" where
  "format_pieces kwargs [] = Inr []"
| "format_pieces kwargs (Lit s # ps) =
     (case format_pieces kwargs ps of Inl e \<Rightarrow> Inl e | Inr r \<Rightarrow> Inr (s @ r))"
| "format_pieces kwargs (Var n # ps) =
     (case map_of kwargs n of
        None \<Rightarrow> Inl (KeyError n)
      | Some v \<Rightarrow> (case format_pieces kwargs ps of Inl e \<Rightarrow> Inl e | Inr r \<Rightarrow> Inr (v @ r)))"

fun format_messages :: "template \<Rightarrow> (string \<times> string) list \<Rightarrow> exn + message list" where
  "format_messages [] kwargs = Inr []"
| "format_messages ((r, ps) # ms) kwargs =
     (case format_pieces kwargs ps of
        Inl e \<Rightarrow> Inl e
      | Inr content \<Rightarrow>
          (case format_messages ms kwargs of
             Inl e \<Rightarrow> Inl e
           | Inr rest \<Rightarrow> Inr ((r, content) # rest)))"

text \<open>The two messages of \<^verbatim>\<open>self.main_prompt\<close>, with the indentation of the source.\<close>

definition system_template :: "piece list" where
  "system_template =
     [Lit (''You are a loan approval expert. You will receive a policy document and loan application data.\<newline>''
        @ ''\<newline>''
        @ ''            Your task:\<newline>''
        @ ''            1. Extract loan approval rules from the policy document\<newline>''
        @ ''            2. Apply those rules to the loan application\<newline>''
        @ ''            3. Make a decision with detailed reasoning\<newline>''
        @ ''\<newline>''
        @ ''            Policy Document:\<newline>''
        @ ''            ''),
      Var ''policy_text'',
      Lit (''\<newline>'' @ ''\<newline>'' @ ''            ''),
      Var ''format_instructions'',
      Lit (''\<newline>''
        @ ''\<newline>''
        @ ''            Guidelines for decision making:\<newline>''
        @ ''            1. Calculate debt-to-income ratio: (monthly_debt * 12) / annual_income\<newline>''
        @ ''            2. Determine risk level based on credit score ranges in the policy\<newline>''
        @ ''            3. Apply appropriate DTI limits for the risk level\<newline>''
        @ ''            4. Check special cases (first-time buyer, self-employed)\<newline>''
        @ ''            5. Provide clear reasoning for your decision'')]"

definition human_template :: "piece list" where
  "human_template =
     [Lit (''Loan Application Data:\<newline>'' @ ''            ''),
      Var ''application_data'',
      Lit (''\<newline>'' @ ''\<newline>''
        @ ''            Please analyze the policy and make a loan decision.'')]"

definition main_prompt_template :: template where
  "main_prompt_template = [(System, system_template), (Human, human_template)]"

section \<open>The output parser\<close>

text \<open>
  \<^verbatim>\<open>PydanticOutputParser(pydantic_object=LoanDecision).parse(text)\<close>: the JSON document in
  the text, validated against \<^verbatim>\<open>LoanDecision\<close>; both failures are raised as
  \<^verbatim>\<open>OutputParserException\<close>.
\<close>

definition PydanticOutputParser_parse :: "library \<Rightarrow> string \<Rightarrow> exn + LoanDecision" where
  "PydanticOutputParser_parse lib text =
     (case parse_json lib text of
        None \<Rightarrow> Inl (OutputParserException (invalid_json_str lib text))
      | Some obj \<Rightarrow>
          (case LoanDecision_validate lib obj of
             Inl errs \<Rightarrow> Inl (OutputParserException (failed_parse_str lib obj errs))
           | Inr d \<Rightarrow> Inr d))"

section \<open>The agent\<close>

text \<open>
  The attributes \<^verbatim>\<open>__init__\<close> sets. \<^verbatim>\<open>self.output_parser\<close> holds no data of its own: it
  is the parser above.
\<close>

record LoanAgent =
  llm :: ChatOpenAI
  main_prompt :: template

definition default_model_name :: string where
  "default_model_name = ''gpt-3.5-turbo''"

text \<open>Python's truth value of \<^verbatim>\<open>None\<close> or a string.\<close>

definition truthy :: "string option \<Rightarrow> bool" where
  "truthy v = (case v of None \<Rightarrow> False | Some s \<Rightarrow> s \<noteq> [])"

text \<open>
  \<^verbatim>\<open>LoanAgent.__init__(openai_api_key, model_name)\<close>, with the process environment it reads
  through \<^verbatim>\<open>os.getenv\<close>.
\<close>

definition missing_key_message :: string where
  "missing_key_message =
     ''OpenAI API key not provided. ''
     @ ''Set OPENAI_API_KEY environment variable or pass as parameter.''"

definition LoanAgent_init ::
  "(string \<Rightarrow> string option) \<Rightarrow> string option \<Rightarrow> string \<Rightarrow> exn + LoanAgent" where
  "LoanAgent_init environ key model =
     (let api_key = (if truthy key then key else environ ''OPENAI_API_KEY'') in
      case api_key of
        None \<Rightarrow> Inl (ValueError missing_key_message)
      | Some k \<Rightarrow>
          if k = [] then Inl (ValueError missing_key_message)
          else Inr \<lparr>llm = \<lparr>openai_api_key = k, model_name = model, temperature = 0\<rparr>,
                    main_prompt = main_prompt_template\<rparr>)"

text \<open>The dict literals of the three \<^verbatim>\<open>return\<close> statements of \<^verbatim>\<open>process_loan_application\<close>.\<close>

definition policy_fallback :: pydict where
  "policy_fallback =
     [(''decision'', PyStr ''denied''),
      (''reasoning'', PyStr ''Error loading policy document''),
      (''riskLevel'', PyStr ''high''),
      (''appliedRules'', PyList [PyStr ''Error handling rule''])]"

definition decision_result :: "LoanDecision \<Rightarrow> pydict" where
  "decision_result d =
     [(''decision'', PyStr (decision d)),
      (''reasoning'', PyStr (reasoning d)),
      (''riskLevel'', PyStr (riskLevel d)),
      (''appliedRules'', PyList (map PyStr (appliedRules d)))]"

definition error_fallback :: "library \<Rightarrow> exn \<Rightarrow> pydict" where
  "error_fallback lib e =
     [(''decision'', PyStr ''denied''),
      (''reasoning'', PyStr (''Error processing application: '' @ exn_str lib e)),
      (''riskLevel'', PyStr ''high''),
      (''appliedRules'', PyList [PyStr ''Error handling rule''])]"

text \<open>
  The \<^verbatim>\<open>try\<close> suite of \<^verbatim>\<open>process_loan_application\<close>: format the prompt, invoke the model,
  parse its answer, return the four fields of the parsed decision.
\<close>

definition process_loan_application_try ::
  "library \<Rightarrow> services \<Rightarrow> LoanAgent \<Rightarrow> string \<Rightarrow> LoanApplication \<Rightarrow> world
     \<Rightarrow> (exn + pydict) \<times> world" where
  "process_loan_application_try lib svc self policy_text application w =
     (case format_messages (main_prompt self)
             [(''policy_text'', policy_text),
              (''application_data'',
                 json_dumps lib 2 0 (PyDict (LoanApplication_dict application))),
              (''format_instructions'', get_format_instructions lib)] of
        Inl e \<Rightarrow> (Inl e, w)
      | Inr formatted_prompt \<Rightarrow>
          (let w1 = w\<lparr>llm_calls := llm_calls w @ [(llm self, formatted_prompt)]\<rparr> in
           case ChatOpenAI_invoke svc w (llm self) formatted_prompt of
             Inl e \<Rightarrow> (Inl e, w1)
           | Inr content \<Rightarrow>
               (case PydanticOutputParser_parse lib content of
                  Inl e \<Rightarrow> (Inl e, w1)
                | Inr d \<Rightarrow> (Inr (decision_result d), w1))))"

text \<open>
  \<^verbatim>\<open>process_loan_application(pdf_path, application_data)\<close>. The mapping is passed by
  reference and read from the heap. Step 2, the construction of the \<^verbatim>\<open>LoanApplication\<close>,
  stands before the \<^verbatim>\<open>try\<close> statement, so what it raises leaves the function.
\<close>

definition process_loan_application ::
  "library \<Rightarrow> services \<Rightarrow> LoanAgent \<Rightarrow> string \<Rightarrow> nat \<Rightarrow> world \<Rightarrow> (exn + pydict) \<times> world" where
  "process_loan_application lib svc self pdf_path application_data w =
     (case load_policy_text lib svc pdf_path w of
        (Inl e, w1) \<Rightarrow> (Inl e, w1)
      | (Inr policy_text, w1) \<Rightarrow>
          if policy_text = [] then (Inr policy_fallback, w1)
          else
            (case LoanApplication_init lib (heap w1 application_data) of
               Inl e \<Rightarrow> (Inl e, w1)
             | Inr application \<Rightarrow>
                 (case process_loan_application_try lib svc self policy_text application w1 of
                    (Inr result, w2) \<Rightarrow> (Inr result, w2)
                  | (Inl e, w2) \<Rightarrow>
                      (Inr (error_fallback lib e),
                       print (''Error processing application: '' @ exn_str lib e) w2))))"

text \<open>
  Whether a call leaves \<^verbatim>\<open>process_loan_application\<close> through one of its two fallback
  \<^verbatim>\<open>return\<close> statements: the policy text is empty, or the \<^verbatim>\<open>try\<close> suite raised.
\<close>

definition fallback_taken ::
  "library \<Rightarrow> services \<Rightarrow> LoanAgent \<Rightarrow> string \<Rightarrow> nat \<Rightarrow> world \<Rightarrow> bool" where
  "fallback_taken lib svc self pdf_path application_data w =
     (case load_policy_text lib svc pdf_path w of
        (Inl e, w1) \<Rightarrow> False
      | (Inr policy_text, w1) \<Rightarrow>
          if policy_text = [] then True
          else
            (case LoanApplication_init lib (heap w1 application_data) of
               Inl e \<Rightarrow> False
             | Inr application \<Rightarrow>
                 isl (fst (process_loan_application_try lib svc self policy_text
                             application w1))))"

section \<open>The runner's debt-to-income ratio\<close>

text \<open>
  Python's \<^verbatim>\<open>*\<close> with an \<^verbatim>\<open>int\<close> on the right and \<^verbatim>\<open>/\<close>, on the values a dict can hold.
  A \<^verbatim>\<open>bool\<close> counts as the integer 0 or 1, a string or list is repeated by \<^verbatim>\<open>*\<close>, and the
  quotient of two integers is the correctly rounded float.
\<close>

definition py_mul_int :: "pyval \<Rightarrow> int \<Rightarrow> exn + pyval" where
  "py_mul_int v n =
     (case v of
        PyInt i \<Rightarrow> Inr (PyInt (i * n))
      | PyBool b \<Rightarrow> Inr (PyInt (of_bool b * n))
      | PyFloat x \<Rightarrow> Inr (PyFloat (fl (x * fl (of_int n))))
      | PyStr s \<Rightarrow> Inr (PyStr (concat (replicate (nat n) s)))
      | PyList xs \<Rightarrow> Inr (PyList (concat (replicate (nat n) xs)))
      | _ \<Rightarrow> Inl (TypeError ''unsupported operand type(s) for *''))"

definition number_of :: "pyval \<Rightarrow> (int + rat) option" where
  "number_of v =
     (case v of
        PyInt i \<Rightarrow> Some (Inl i)
      | PyBool b \<Rightarrow> Some (Inl (of_bool b))
      | PyFloat x \<Rightarrow> Some (Inr x)
      | _ \<Rightarrow> None)"

definition to_float :: "int + rat \<Rightarrow> rat" where
  "to_float n = (case n of Inl i \<Rightarrow> fl (of_int i) | Inr x \<Rightarrow> x)"

definition py_truediv :: "pyval \<Rightarrow> pyval \<Rightarrow> exn + pyval" where
  "py_truediv a b =
     (case (number_of a, number_of b) of
        (Some (Inl i), Some (Inl j)) \<Rightarrow>
          if j = 0 then Inl (ZeroDivisionError ''division by zero'')
          else Inr (PyFloat (fl (of_int i / of_int j)))
      | (Some x, Some y) \<Rightarrow>
          if to_float y = 0 then Inl (ZeroDivisionError ''float division by zero'')
          else Inr (PyFloat (fl (to_float x / to_float y)))
      | _ \<Rightarrow> Inl (TypeError ''unsupported operand type(s) for /''))"

text \<open>
  Line 67 of \<^verbatim>\<open>loan_runner.py\<close>, the first statement of \<^verbatim>\<open>display_application_summary\<close>:
  \<^verbatim>\<open>dti = application_data["monthlyDebt"] * 12 / application_data["annualIncome"] * 100\<close>,
  evaluated from left to right.
\<close>

definition dti :: "pydict \<Rightarrow> exn + pyval" where
  "dti application_data =
     (case map_of application_data ''monthlyDebt'' of
        None \<Rightarrow> Inl (KeyError ''monthlyDebt'')
      | Some monthly_debt \<Rightarrow>
          (case py_mul_int monthly_debt 12 of
             Inl e \<Rightarrow> Inl e
           | Inr yearly_debt \<Rightarrow>
               (case map_of application_data ''annualIncome'' of
                  None \<Rightarrow> Inl (KeyError ''annualIncome'')
                | Some annual_income \<Rightarrow>
                    (case py_truediv yearly_debt annual_income of
                       Inl e \<Rightarrow> Inl e
                     | Inr ratio \<Rightarrow> py_mul_int ratio 100))))"

section \<open>A test bench\<close>

text \<open>
  Concrete collaborators and inputs, on which the theorems below are exercised. The
  library of the bench coerces nothing, renders a float of whole value as Python does
  (its digits followed by \<^verbatim>\<open>.0\<close>; it is used on such values only), and reads the two
  JSON documents below. Its PDF loader knows one document of two pages; its language
  model answers every prompt with the given reply.
\<close>

definition whole_float_repr :: "rat \<Rightarrow> string" where
  "whole_float_repr x = show_int \<lfloor>x\<rfloor> @ ''.0''"

text \<open>The record the runner builds when every question is answered with its default.\<close>

definition scenario_application :: pydict where
  "scenario_application =
     [(''applicantId'', PyStr ''APP_USER_001''),
      (''requestedAmount'', PyFloat 250000),
      (''annualIncome'', PyFloat 75000),
      (''monthlyDebt'', PyFloat 2000),
      (''creditScore'', PyInt 700),
      (''employmentMonths'', PyInt 24),
      (''isFirstTimeBuyer'', PyBool False),
      (''isSelfEmployed'', PyBool False)]"

definition scenario_record :: LoanApplication where
  "scenario_record =
     \<lparr>applicantId = ''APP_USER_001'', requestedAmount = 250000, annualIncome = 75000,
      monthlyDebt = 2000, creditScore = 700, employmentMonths = 24,
      isFirstTimeBuyer = False, isSelfEmployed = False\<rparr>"

text \<open>The same record without its \<^verbatim>\<open>annualIncome\<close>, and with an \<^verbatim>\<open>annualIncome\<close> of zero.\<close>

definition incomplete_application :: pydict where
  "incomplete_application =
     [(''applicantId'', PyStr ''APP_USER_001''),
      (''requestedAmount'', PyFloat 250000),
      (''monthlyDebt'', PyFloat 2000),
      (''creditScore'', PyInt 700),
      (''employmentMonths'', PyInt 24),
      (''isFirstTimeBuyer'', PyBool False),
      (''isSelfEmployed'', PyBool False)]"

definition zero_income_application :: pydict where
  "zero_income_application =
     [(''applicantId'', PyStr ''APP_USER_001''),
      (''requestedAmount'', PyFloat 250000),
      (''annualIncome'', PyFloat 0),
      (''monthlyDebt'', PyFloat 2000),
      (''creditScore'', PyInt 700),
      (''employmentMonths'', PyInt 24),
      (''isFirstTimeBuyer'', PyBool False),
      (''isSelfEmployed'', PyBool False)]"

text \<open>The same record with a \<^verbatim>\<open>requestedAmount\<close> that is an \<^verbatim>\<open>int\<close> beyond the range of binary64.\<close>

definition huge_amount_application :: pydict where
  "huge_amount_application =
     [(''applicantId'', PyStr ''APP_USER_001''),
      (''requestedAmount'', PyInt (10 ^ 400)),
      (''annualIncome'', PyFloat 75000),
      (''monthlyDebt'', PyFloat 2000),
      (''creditScore'', PyInt 700),
      (''employmentMonths'', PyInt 24),
      (''isFirstTimeBuyer'', PyBool False),
      (''isSelfEmployed'', PyBool False)]"

definition policy_pages :: "string list" where
  "policy_pages =
     [''Credit score of 680 or more is low risk.'', ''Low risk DTI ceiling is 40%.'']"

definition policy_document :: string where
  "policy_document =
     ''Credit score of 680 or more is low risk.\<newline>\<newline>Low risk DTI ceiling is 40%.''"

definition approved_text :: string where
  \<open>approved_text =
     ''{"decision": "approved", "reasoning": "DTI 32% is below 40%", ''
     @ ''"riskLevel": "low", "appliedRules": ["credit score", "DTI ceiling"]}''\<close>

definition approved_json :: pyval where
  "approved_json =
     PyDict [(''decision'', PyStr ''approved''),
             (''reasoning'', PyStr ''DTI 32% is below 40%''),
             (''riskLevel'', PyStr ''low''),
             (''appliedRules'', PyList [PyStr ''credit score'', PyStr ''DTI ceiling''])]"

definition approved_decision :: LoanDecision where
  "approved_decision =
     \<lparr>decision = ''approved'', reasoning = ''DTI 32% is below 40%'', riskLevel = ''low'',
      appliedRules = [''credit score'', ''DTI ceiling'']\<rparr>"

definition maybe_text :: string where
  \<open>maybe_text =
     ''{"decision": "maybe", "reasoning": "unsure", ''
     @ ''"riskLevel": "medium", "appliedRules": []}''\<close>

definition maybe_json :: pyval where
  "maybe_json =
     PyDict [(''decision'', PyStr ''maybe''),
             (''reasoning'', PyStr ''unsure''),
             (''riskLevel'', PyStr ''medium''),
             (''appliedRules'', PyList [])]"

definition bench_library :: library where
  "bench_library =
     \<lparr>coerce_str = (\<lambda>v. None),
      coerce_float = (\<lambda>v. None),
      coerce_int = (\<lambda>v. None),
      coerce_bool = (\<lambda>v. None),
      validation_error_str =
        (\<lambda>errs. show_nat (length errs) @ '' validation errors for LoanApplication''),
      float_repr = whole_float_repr,
      parse_json = map_of [(approved_text, approved_json), (maybe_text, maybe_json)],
      invalid_json_str = (\<lambda>t. ''Invalid json output: '' @ t),
      failed_parse_str = (\<lambda>obj errs. ''Failed to parse LoanDecision from completion''),
      get_format_instructions = ''The output should be formatted as a JSON instance.''\<rparr>"

definition bench_services :: "string \<Rightarrow> services" where
  "bench_services reply =
     \<lparr>PyPDFLoader_load =
        (\<lambda>w pdf_path.
           if pdf_path = ''loan_policy.pdf'' then Inr policy_pages
           else Inl (Exception ''File not found'')),
      ChatOpenAI_invoke = (\<lambda>w model messages. Inr reply)\<rparr>"

definition bench_world :: "pydict \<Rightarrow> world" where
  "bench_world d = \<lparr>stdout = [], pdf_loads = [], llm_calls = [], heap = (\<lambda>r. d)\<rparr>"

definition bench_agent :: LoanAgent where
  "bench_agent =
     \<lparr>llm = \<lparr>openai_api_key = ''sk-test'', model_name = ''gpt-3.5-turbo'', temperature = 0\<rparr>,
      main_prompt = main_prompt_template\<rparr>"

text \<open>A second agent, with the credential of the environment and another model.\<close>

definition other_agent :: LoanAgent where
  "other_agent =
     \<lparr>llm = \<lparr>openai_api_key = ''sk-env'', model_name = ''gpt-4'', temperature = 0\<rparr>,
      main_prompt = main_prompt_template\<rparr>"

text \<open>
  The human message the template yields for \<open>scenario_record\<close>, as Python prints it.
\<close>

definition scenario_human_message :: string where
  \<open>scenario_human_message =
     ''Loan Application Data:\<newline>''
     @ ''            {\<newline>''
     @ ''  "applicantId": "APP_USER_001",\<newline>''
     @ ''  "requestedAmount": 250000.0,\<newline>''
     @ ''  "annualIncome": 75000.0,\<newline>''
     @ ''  "monthlyDebt": 2000.0,\<newline>''
     @ ''  "creditScore": 700,\<newline>''
     @ ''  "employmentMonths": 24,\<newline>''
     @ ''  "isFirstTimeBuyer": false,\<newline>''
     @ ''  "isSelfEmployed": false\<newline>''
     @ ''}\<newline>''
     @ ''\<newline>''
     @ ''            Please analyze the policy and make a loan decision.''\<close>

section \<open>Properties\<close>

subsection \<open>What each step leaves of the world\<close>

lemma load_policy_text_value:
  "fst (load_policy_text lib svc pdf_path w) =
     Inr (case PyPDFLoader_load svc w pdf_path of
            Inl e \<Rightarrow> []
          | Inr documents \<Rightarrow> join [CHR 0x0A, CHR 0x0A] documents)"
  by (simp add: load_policy_text_def load_policy_text_try_def Let_def split: sum.split)

lemma load_policy_text_pdf_loads:
  "pdf_loads (snd (load_policy_text lib svc pdf_path w)) = pdf_loads w @ [pdf_path]"
  by (simp add: load_policy_text_def load_policy_text_try_def print_def Let_def split: sum.split)

lemma load_policy_text_llm_calls:
  "llm_calls (snd (load_policy_text lib svc pdf_path w)) = llm_calls w"
  by (simp add: load_policy_text_def load_policy_text_try_def print_def Let_def split: sum.split)

lemma load_policy_text_heap:
  "heap (snd (load_policy_text lib svc pdf_path w)) = heap w"
  by (simp add: load_policy_text_def load_policy_text_try_def print_def Let_def split: sum.split)

lemma try_heap:
  "heap (snd (process_loan_application_try lib svc self policy_text application w)) = heap w"
  by (simp add: process_loan_application_try_def Let_def split: sum.split)

subsection \<open>The rounding to binary64 and the range of an \<^verbatim>\<open>int\<close> given for a \<^verbatim>\<open>float\<close>\<close>

text \<open>
  \<open>fl\<close> is within half a unit in the last place of its argument, so an \<^verbatim>\<open>int\<close> of magnitude
  \<open>2 ^ 1025\<close> or more is invalid for a \<^verbatim>\<open>float\<close> field, and one of magnitude below
  \<open>2 ^ 1023\<close> is valid.
\<close>

lemma round_half_even_error: "\<bar>of_int (round_half_even y) - y\<bar> \<le> 1 / 2"
proof -
  have "of_int \<lfloor>y\<rfloor> \<le> y" "y < of_int \<lfloor>y\<rfloor> + 1"
    by linarith+
  then show ?thesis
    by (auto simp: round_half_even_def Let_def)
qed

lemma fl_exponent:
  assumes "x \<noteq> 0"
  obtains e where "fl x = of_int (round_half_even (x / power_int 2 e)) * power_int 2 e"
    and "2 ^ 52 \<le> \<bar>x\<bar> / power_int 2 e"
proof -
  obtain p q where pq: "quotient_of \<bar>x\<bar> = (p, q)"
    by (cases "quotient_of \<bar>x\<bar>")
  have q: "0 < q" using pq by (rule quotient_of_denom_pos)
  have x: "\<bar>x\<bar> = of_int p / of_int q" using pq by (rule quotient_of_div)
  have "0 < \<bar>x\<bar>" using assms by simp
  with x q have p: "0 < p"
    by (simp add: zero_less_divide_iff)
  define a where "a = bitlen p"
  define b where "b = bitlen q"
  define e0 where "e0 = a - b - 53"
  have a1: "1 \<le> a" and b1: "1 \<le> b"
    using p q bitlen_eq_zero_iff [of p] bitlen_eq_zero_iff [of q] bitlen_nonneg [of p]
      bitlen_nonneg [of q]
    by (auto simp: a_def b_def)
  have pl: "(2::rat) powi (a - 1) \<le> of_int p"
  proof -
    have "2 ^ nat (a - 1) \<le> p" using bitlen_bounds [OF p] by (simp add: a_def)
    then have "(of_int (2 ^ nat (a - 1)) :: rat) \<le> of_int p" by (simp only: of_int_le_iff)
    then show ?thesis using a1 by (simp add: power_int_def)
  qed
  have qu: "(of_int q :: rat) < 2 powi b"
  proof -
    have "q < 2 ^ nat b" using bitlen_bounds [OF q] by (simp add: b_def)
    then have "(of_int q :: rat) < of_int (2 ^ nat b)" by (simp only: of_int_less_iff)
    then show ?thesis using b1 by (simp add: power_int_def)
  qed
  have split: "(2::rat) powi (a - 1) = 2 ^ 52 * 2 powi e0 * 2 powi b"
  proof -
    have "a - 1 = 52 + (e0 + b)" by (simp add: e0_def)
    then have "(2::rat) powi (a - 1) = 2 powi 52 * (2 powi e0 * 2 powi b)"
      by (simp add: power_int_add)
    then show ?thesis by (simp add: mult.assoc)
  qed
  have low: "2 ^ 52 < \<bar>x\<bar> / 2 powi e0"
  proof -
    have c: "(0::rat) < 2 ^ 52 * 2 powi e0" by simp
    have "(2::rat) ^ 52 * 2 powi e0 * of_int q < 2 ^ 52 * 2 powi e0 * 2 powi b"
      using qu c by (rule mult_strict_left_mono)
    also have "\<dots> \<le> of_int p" using pl split by simp
    finally have "(2::rat) ^ 52 * 2 powi e0 < of_int p / of_int q"
      using q by (simp add: pos_less_divide_eq)
    then have "(2::rat) ^ 52 * 2 powi e0 < \<bar>x\<bar>"
      by (simp only: x)
    moreover have "(0::rat) < 2 powi e0" by simp
    ultimately show ?thesis
      by (simp only: pos_less_divide_eq)
  qed
  define e where "e = (if 2 ^ 53 \<le> \<bar>x\<bar> / power_int 2 e0 then e0 + 1 else e0)"
  have flx: "fl x = of_int (round_half_even (x / power_int 2 e)) * power_int 2 e"
    using assms pq by (simp add: fl_def Let_def e_def e0_def a_def b_def)
  have "2 ^ 52 \<le> \<bar>x\<bar> / power_int 2 e"
  proof (cases "2 ^ 53 \<le> \<bar>x\<bar> / power_int 2 e0")
    case True
    have "(2::rat) powi (e0 + 1) = 2 powi e0 * 2" by (simp add: power_int_add)
    with True show ?thesis by (simp add: e_def field_simps)
  next
    case False
    with low show ?thesis by (simp add: e_def)
  qed
  with flx show ?thesis by (rule that)
qed

lemma fl_error: "\<bar>fl x - x\<bar> \<le> \<bar>x\<bar> / 2 ^ 53"
proof (cases "x = 0")
  case True
  then show ?thesis by (simp add: fl_def)
next
  case False
  then obtain e where flx: "fl x = of_int (round_half_even (x / power_int 2 e)) * power_int 2 e"
    and big: "2 ^ 52 \<le> \<bar>x\<bar> / power_int 2 e"
    by (rule fl_exponent)
  define s :: rat where "s = power_int 2 e"
  have s: "0 < s" by (simp add: s_def)
  define m :: rat where "m = of_int (round_half_even (x / s))"
  have "\<bar>m - x / s\<bar> \<le> 1 / 2" unfolding m_def by (rule round_half_even_error)
  then have "\<bar>m - x / s\<bar> * s \<le> 1 / 2 * s" using s by (simp add: mult_right_mono)
  moreover have "\<bar>m - x / s\<bar> * s = \<bar>m * s - x\<bar>"
  proof -
    have "\<bar>m - x / s\<bar> * s = \<bar>(m - x / s) * s\<bar>" using s by (simp add: abs_mult)
    also have "(m - x / s) * s = m * s - x" using s by (simp add: field_simps)
    finally show ?thesis .
  qed
  ultimately have "\<bar>m * s - x\<bar> \<le> s / 2"
    by simp
  moreover have "fl x = m * s"
    using flx by (simp add: m_def s_def)
  ultimately have err: "\<bar>fl x - x\<bar> \<le> s / 2"
    by simp
  have "2 ^ 52 * s \<le> \<bar>x\<bar>" using big s by (simp add: s_def pos_le_divide_eq)
  then have "s / 2 \<le> \<bar>x\<bar> / 2 ^ 53" by simp
  with err show ?thesis by linarith
qed

lemma fl_beyond_range:
  assumes "2 * 2 ^ 1024 \<le> \<bar>x\<bar>"
  shows "\<not> binary64_finite (fl x)"
proof -
  have "\<bar>x\<bar> / 2 ^ 53 \<le> \<bar>x\<bar> / 2" by (simp add: field_simps)
  with fl_error [of x] have "\<bar>fl x - x\<bar> \<le> \<bar>x\<bar> / 2" by linarith
  then have "\<bar>x\<bar> / 2 \<le> \<bar>fl x\<bar>" by linarith
  with assms have "2 ^ 1024 \<le> \<bar>fl x\<bar>" by linarith
  then show ?thesis by (simp add: binary64_finite_def)
qed

lemma fl_within_range:
  assumes "2 * \<bar>x\<bar> < 2 ^ 1024"
  shows "binary64_finite (fl x)"
proof -
  have "\<bar>x\<bar> / 2 ^ 53 \<le> \<bar>x\<bar>" by (simp add: field_simps)
  with fl_error [of x] have "\<bar>fl x - x\<bar> \<le> \<bar>x\<bar>" by linarith
  then have "\<bar>fl x\<bar> \<le> 2 * \<bar>x\<bar>" by linarith
  with assms show ?thesis by (simp add: binary64_finite_def)
qed

lemma validate_float_beyond_range:
  assumes "2 * 2 ^ 1024 \<le> \<bar>i\<bar>"
  shows "validate_float lib (PyInt i) = None"
proof -
  have "(2::rat) * 2 ^ 1024 \<le> \<bar>of_int i\<bar>"
  proof -
    have "(of_int (2 * 2 ^ 1024) :: rat) \<le> of_int \<bar>i\<bar>"
      using assms by (simp only: of_int_le_iff)
    then show ?thesis by simp
  qed
  then have "\<not> binary64_finite (fl (of_int i))" by (rule fl_beyond_range)
  then show ?thesis by (simp add: validate_float_def)
qed

lemma validate_float_within_range:
  assumes "2 * \<bar>i\<bar> < 2 ^ 1024"
  shows "validate_float lib (PyInt i) = Some (fl (of_int i))"
proof -
  have "(2::rat) * \<bar>of_int i\<bar> < 2 ^ 1024"
  proof -
    have "(of_int (2 * \<bar>i\<bar>) :: rat) < of_int (2 ^ 1024)"
      using assms by (simp only: of_int_less_iff)
    then show ?thesis by simp
  qed
  then have "binary64_finite (fl (of_int i))" by (rule fl_within_range)
  then show ?thesis by (simp add: validate_float_def)
qed

subsection \<open>Binary64 arithmetic of the debt-to-income ratio of the scenario\<close>

lemma fl_12: "fl 12 = 12"
  by code_simp

lemma fl_100: "fl 100 = 100"
  by code_simp

lemma fl_24000: "fl 24000 = 24000"
  by code_simp

lemma fl_ratio: "fl (8 / 25) = 5764607523034235 / 18014398509481984"
  by code_simp

lemma fl_percent: "fl (144115188075855875 / 4503599627370496) = 32"
  by code_simp

lemma dti_floats:
  assumes "map_of d ''monthlyDebt'' = Some (PyFloat 2000)"
    and "map_of d ''annualIncome'' = Some (PyFloat 75000)"
  shows "dti d = Inr (PyFloat 32)"
  using assms
  by (simp add: dti_def py_mul_int_def py_truediv_def number_of_def to_float_def
      fl_12 fl_24000 fl_100 fl_ratio fl_percent)

subsection \<open>The template, the validated fields and the parsed decision\<close>

lemma format_main_prompt:
  "\<exists>prompt. format_messages main_prompt_template
      [(''policy_text'', p), (''application_data'', a), (''format_instructions'', f)] = Inr prompt"
  by (simp add: main_prompt_template_def system_template_def human_template_def)

lemma LoanAgent_init_main_prompt:
  assumes "LoanAgent_init environ key model = Inr self"
  shows "main_prompt self = main_prompt_template"
  using assms
  by (auto simp: LoanAgent_init_def Let_def split: option.splits if_splits)

lemma LoanApplication_init_fields:
  assumes "LoanApplication_init lib d = Inr a"
  shows "field (validate_str lib) d ''applicantId'' = Inr (applicantId a)"
    and "field (validate_float lib) d ''requestedAmount'' = Inr (requestedAmount a)"
    and "field (validate_float lib) d ''annualIncome'' = Inr (annualIncome a)"
    and "field (validate_float lib) d ''monthlyDebt'' = Inr (monthlyDebt a)"
  using assms
  by (auto simp: LoanApplication_init_def Let_def split: sum.splits)

text \<open>
  The validator takes every mapping whose eight fields have the annotated types, whatever
  the numbers are: zero, negative, or beyond any usual range.
\<close>

lemma LoanApplication_init_any_range:
  assumes "map_of d ''applicantId'' = Some (PyStr s)"
    and "map_of d ''requestedAmount'' = Some (PyFloat amount)"
    and "map_of d ''annualIncome'' = Some (PyFloat income)"
    and "map_of d ''monthlyDebt'' = Some (PyFloat debt)"
    and "map_of d ''creditScore'' = Some (PyInt score)"
    and "map_of d ''employmentMonths'' = Some (PyInt months)"
    and "map_of d ''isFirstTimeBuyer'' = Some (PyBool first)"
    and "map_of d ''isSelfEmployed'' = Some (PyBool self_employed)"
  shows "LoanApplication_init lib d =
           Inr \<lparr>applicantId = s, requestedAmount = amount, annualIncome = income,
                monthlyDebt = debt, creditScore = score, employmentMonths = months,
                isFirstTimeBuyer = first, isSelfEmployed = self_employed\<rparr>"
  using assms
  by (simp add: LoanApplication_init_def field_def validate_str_def validate_float_def
      validate_int_def validate_bool_def errors_of_def)

lemma LoanDecision_validate_strings:
  assumes "map_of kvs ''decision'' = Some (PyStr s)"
    and "map_of kvs ''reasoning'' = Some (PyStr rsn)"
    and "map_of kvs ''riskLevel'' = Some (PyStr rl)"
    and "map_of kvs ''appliedRules'' = Some (PyList (map PyStr rules))"
  shows "LoanDecision_validate lib (PyDict kvs) =
           Inr \<lparr>decision = s, reasoning = rsn, riskLevel = rl, appliedRules = rules\<rparr>"
proof -
  have "those (map (validate_str lib) (map PyStr rules)) = Some rules"
    by (induction rules) (simp_all add: validate_str_def)
  with assms show ?thesis
    by (simp add: LoanDecision_validate_def field_def validate_str_def validate_str_list_def)
qed

lemma newline_indent_2_0: "newline_indent 2 0 = [CHR 0x0A]"
  by (simp add: newline_indent_def)

lemma newline_indent_2_1: "newline_indent 2 (Suc 0) = [CHR 0x0A, CHR '' '', CHR '' '']"
  by (simp add: newline_indent_def numeral_2_eq_2)

subsection \<open>The three ways through \<^verbatim>\<open>process_loan_application\<close>\<close>

lemma process_empty_policy:
  assumes "fst (load_policy_text lib svc pdf_path w) = Inr []"
  shows "process_loan_application lib svc self pdf_path r w =
           (Inr policy_fallback, snd (load_policy_text lib svc pdf_path w))"
  using assms
  by (cases "load_policy_text lib svc pdf_path w") (simp add: process_loan_application_def)

lemma process_rejected:
  assumes "fst (load_policy_text lib svc pdf_path w) = Inr policy_text"
    and "policy_text \<noteq> []"
    and "LoanApplication_init lib (heap w r) = Inl e"
  shows "process_loan_application lib svc self pdf_path r w =
           (Inl e, snd (load_policy_text lib svc pdf_path w))"
  using assms load_policy_text_heap [of lib svc pdf_path w]
  by (cases "load_policy_text lib svc pdf_path w") (simp add: process_loan_application_def)

lemma process_validated:
  assumes "fst (load_policy_text lib svc pdf_path w) = Inr policy_text"
    and "policy_text \<noteq> []"
    and "LoanApplication_init lib (heap w r) = Inr application"
  shows "process_loan_application lib svc self pdf_path r w =
           (case process_loan_application_try lib svc self policy_text application
                   (snd (load_policy_text lib svc pdf_path w)) of
              (Inr result, w2) \<Rightarrow> (Inr result, w2)
            | (Inl e, w2) \<Rightarrow>
                (Inr (error_fallback lib e),
                 print (''Error processing application: '' @ exn_str lib e) w2))"
  using assms load_policy_text_heap [of lib svc pdf_path w]
  by (cases "load_policy_text lib svc pdf_path w") (simp add: process_loan_application_def)

lemma try_answered:
  assumes "format_messages (main_prompt self)
             [(''policy_text'', policy_text),
              (''application_data'',
                 json_dumps lib 2 0 (PyDict (LoanApplication_dict application))),
              (''format_instructions'', get_format_instructions lib)] = Inr prompt"
    and "ChatOpenAI_invoke svc w (llm self) prompt = Inr content"
  shows "fst (process_loan_application_try lib svc self policy_text application w) =
           (case PydanticOutputParser_parse lib content of
              Inl e \<Rightarrow> Inl e
            | Inr d \<Rightarrow> Inr (decision_result d))"
    and "llm_calls (snd (process_loan_application_try lib svc self policy_text application w)) =
           llm_calls w @ [(llm self, prompt)]"
  using assms
  by (simp_all add: process_loan_application_try_def Let_def split: sum.split)

lemma try_sends_prompt:
  assumes "format_messages (main_prompt self)
             [(''policy_text'', policy_text),
              (''application_data'',
                 json_dumps lib 2 0 (PyDict (LoanApplication_dict application))),
              (''format_instructions'', get_format_instructions lib)] = Inr prompt"
  shows "llm_calls (snd (process_loan_application_try lib svc self policy_text application w)) =
           llm_calls w @ [(llm self, prompt)]"
  using assms
  by (simp add: process_loan_application_try_def Let_def split: sum.split)

lemma try_returns_decision:
  assumes "fst (process_loan_application_try lib svc self policy_text application w) = Inr result"
  shows "\<exists>d. result = decision_result d"
  using assms
  by (auto simp: process_loan_application_try_def Let_def split: sum.splits)

lemma process_sends_prompt:
  assumes "fst (load_policy_text lib svc pdf_path w) = Inr policy_text"
    and "policy_text \<noteq> []"
    and "LoanApplication_init lib (heap w application_data) = Inr application"
    and "format_messages (main_prompt self)
           [(''policy_text'', policy_text),
            (''application_data'',
               json_dumps lib 2 0 (PyDict (LoanApplication_dict application))),
            (''format_instructions'', get_format_instructions lib)] = Inr prompt"
  shows "llm_calls (snd (process_loan_application lib svc self pdf_path application_data w)) =
           llm_calls w @ [(llm self, prompt)]"
proof -
  let ?w1 = "snd (load_policy_text lib svc pdf_path w)"
  let ?suite = "process_loan_application_try lib svc self policy_text application ?w1"
  have "llm_calls (snd ?suite) = llm_calls ?w1 @ [(llm self, prompt)]"
    by (rule try_sends_prompt [OF assms(4)])
  then have "llm_calls (snd ?suite) = llm_calls w @ [(llm self, prompt)]"
    by (simp add: load_policy_text_llm_calls)
  then show ?thesis
    using process_validated [OF assms(1) assms(2) assms(3), of self]
    by (cases ?suite) (auto simp: print_def split: sum.splits)
qed

subsection \<open>The test bench, evaluated\<close>

lemma bench_agent_init:
  "LoanAgent_init Map.empty (Some ''sk-test'') default_model_name = Inr bench_agent"
  by (simp add: LoanAgent_init_def truthy_def default_model_name_def bench_agent_def)

lemma other_agent_init:
  "LoanAgent_init (Map.empty(''OPENAI_API_KEY'' \<mapsto> ''sk-env'')) None ''gpt-4'' = Inr other_agent"
  by (simp add: LoanAgent_init_def truthy_def other_agent_def)

lemma bench_heap: "heap (bench_world d) r = d"
  by (simp add: bench_world_def)

lemma bench_invoke: "ChatOpenAI_invoke (bench_services reply) w model messages = Inr reply"
  by (simp add: bench_services_def)

lemma bench_prompt:
  "\<exists>prompt. format_messages (main_prompt bench_agent)
      [(''policy_text'', p), (''application_data'', a), (''format_instructions'', f)] = Inr prompt"
  using format_main_prompt [of p a f] by (simp add: bench_agent_def)

lemma bench_load:
  "fst (load_policy_text bench_library (bench_services reply) ''loan_policy.pdf'' w) = Inr policy_document"
  by (simp add: load_policy_text_value bench_services_def policy_pages_def policy_document_def)

lemma bench_load_missing:
  "fst (load_policy_text bench_library (bench_services reply) ''missing.pdf'' w) = Inr []"
  by (simp add: load_policy_text_value bench_services_def)

lemma policy_document_not_empty: "policy_document \<noteq> []"
  by (simp add: policy_document_def)

lemma bench_validate_scenario:
  "LoanApplication_init bench_library scenario_application = Inr scenario_record"
  by (simp add: LoanApplication_init_def scenario_application_def scenario_record_def field_def
      validate_str_def validate_float_def validate_int_def validate_bool_def errors_of_def)

lemma bench_validate_incomplete:
  "LoanApplication_init bench_library incomplete_application =
     Inl (ValidationError [(''annualIncome'', Missing)])"
  by (simp add: LoanApplication_init_def incomplete_application_def field_def
      validate_str_def validate_float_def validate_int_def validate_bool_def errors_of_def)

lemma bench_validate_huge_amount:
  "LoanApplication_init bench_library huge_amount_application =
     Inl (ValidationError [(''requestedAmount'', Invalid)])"
proof -
  have "(2::int) * 2 ^ 1024 \<le> \<bar>10 ^ 400\<bar>" by simp
  then have "validate_float bench_library (PyInt (10 ^ 400)) = None"
    by (rule validate_float_beyond_range)
  then have "field (validate_float bench_library) huge_amount_application ''requestedAmount'' =
      Inl [(''requestedAmount'', Invalid)]"
    by (simp add: field_def huge_amount_application_def)
  then show ?thesis
    by (simp add: LoanApplication_init_def Let_def huge_amount_application_def field_def
        validate_str_def validate_int_def validate_bool_def errors_of_def
        validate_float_def [of _ "PyFloat _"])
qed

lemma bench_validate_zero_income:
  "LoanApplication_init bench_library zero_income_application =
     Inr (scenario_record\<lparr>annualIncome := 0\<rparr>)"
  by (simp add: LoanApplication_init_def zero_income_application_def scenario_record_def field_def
      validate_str_def validate_float_def validate_int_def validate_bool_def errors_of_def)

lemma bench_parse_json_maybe: "parse_json bench_library maybe_text = Some maybe_json"
  by (simp add: bench_library_def approved_text_def maybe_text_def)

lemma bench_parse_approved:
  "PydanticOutputParser_parse bench_library approved_text = Inr approved_decision"
  by (simp add: PydanticOutputParser_parse_def bench_library_def approved_text_def maybe_text_def
      approved_json_def approved_decision_def LoanDecision_validate_def field_def validate_str_def
      validate_str_list_def errors_of_def)

lemma bench_parse_maybe:
  "PydanticOutputParser_parse bench_library maybe_text =
     Inr \<lparr>decision = ''maybe'', reasoning = ''unsure'', riskLevel = ''medium'', appliedRules = []\<rparr>"
  by (simp add: PydanticOutputParser_parse_def bench_library_def approved_text_def maybe_text_def
      maybe_json_def LoanDecision_validate_def field_def validate_str_def
      validate_str_list_def errors_of_def)

lemma bench_parse_garbage:
  "PydanticOutputParser_parse bench_library ''I cannot decide.'' =
     Inl (OutputParserException ''Invalid json output: I cannot decide.'')"
  by (simp add: PydanticOutputParser_parse_def bench_library_def approved_text_def maybe_text_def)

lemma bench_json:
  "format_pieces
     [(''policy_text'', p),
      (''application_data'', json_dumps bench_library 2 0 (PyDict (LoanApplication_dict scenario_record))),
      (''format_instructions'', f)] human_template = Inr scenario_human_message"
  by (simp add: human_template_def LoanApplication_dict_def scenario_record_def
      newline_indent_2_0 newline_indent_2_1 json_str_def json_escape_char_def bench_library_def whole_float_repr_def
      show_int_def show_nat.simps digit_char_def scenario_human_message_def)

section \<open>The claims\<close>

text \<open>
  C1. When the validator rejects the applicant mapping and the policy text is not empty,
  the language model is not invoked: the list of prompts sent is what it was before the
  call. (The validator rejects a missing field or a value that cannot be turned into the
  annotated type, such as an \<^verbatim>\<open>int\<close> beyond the range of binary64 given for a \<^verbatim>\<open>float\<close>; it
  has no check of a range of its own.)
\<close>

theorem validator_rejection_skips_service:
  assumes "fst (load_policy_text lib svc pdf_path w) = Inr policy_text"
    and "policy_text \<noteq> []"
    and "LoanApplication_init lib (heap w application_data) = Inl e"
  shows "llm_calls (snd (process_loan_application lib svc self pdf_path application_data w)) =
           llm_calls w"
  using process_rejected [OF assms] load_policy_text_llm_calls [of lib svc pdf_path w]
  by simp

theorem validator_rejection_skips_service_witness:
  "fst (load_policy_text bench_library (bench_services approved_text) ''loan_policy.pdf''
          (bench_world incomplete_application)) = Inr policy_document
   \<and> policy_document \<noteq> []
   \<and> LoanApplication_init bench_library (heap (bench_world incomplete_application) 0) =
       Inl (ValidationError [(''annualIncome'', Missing)])
   \<and> llm_calls (snd (process_loan_application bench_library (bench_services approved_text)
        bench_agent ''loan_policy.pdf'' 0 (bench_world incomplete_application))) =
       llm_calls (bench_world incomplete_application)
   \<and> fst (load_policy_text bench_library (bench_services approved_text) ''loan_policy.pdf''
          (bench_world huge_amount_application)) = Inr policy_document
   \<and> LoanApplication_init bench_library (heap (bench_world huge_amount_application) 0) =
       Inl (ValidationError [(''requestedAmount'', Invalid)])
   \<and> llm_calls (snd (process_loan_application bench_library (bench_services approved_text)
        bench_agent ''loan_policy.pdf'' 0 (bench_world huge_amount_application))) =
       llm_calls (bench_world huge_amount_application)"
proof -
  have h1: "fst (load_policy_text bench_library (bench_services approved_text) ''loan_policy.pdf''
          (bench_world d)) = Inr policy_document" for d
    by (rule bench_load)
  have h3: "LoanApplication_init bench_library (heap (bench_world incomplete_application) 0) =
       Inl (ValidationError [(''annualIncome'', Missing)])"
    by (simp add: bench_heap bench_validate_incomplete)
  have h4: "LoanApplication_init bench_library (heap (bench_world huge_amount_application) 0) =
       Inl (ValidationError [(''requestedAmount'', Invalid)])"
    by (simp add: bench_heap bench_validate_huge_amount)
  show ?thesis
    using h1 policy_document_not_empty h3 h4
      validator_rejection_skips_service [OF h1 policy_document_not_empty h3]
      validator_rejection_skips_service [OF h1 policy_document_not_empty h4]
    by simp
qed

text \<open>
  The claim fails on a mapping without \<^verbatim>\<open>annualIncome\<close>: the validator rejects it, the
  policy text is not empty, and the call ends with the \<^verbatim>\<open>ValidationError\<close> raised to the
  caller, not with a returned record. A mapping whose \<^verbatim>\<open>annualIncome\<close> is zero is not
  rejected at all.
\<close>

theorem validator_rejection_reaches_caller:
  "LoanApplication_init bench_library incomplete_application =
     Inl (ValidationError [(''annualIncome'', Missing)])
   \<and> fst (load_policy_text bench_library (bench_services approved_text) ''loan_policy.pdf''
          (bench_world incomplete_application)) = Inr policy_document
   \<and> policy_document \<noteq> []
   \<and> fst (process_loan_application bench_library (bench_services approved_text)
        bench_agent ''loan_policy.pdf'' 0 (bench_world incomplete_application)) =
       Inl (ValidationError [(''annualIncome'', Missing)])
   \<and> LoanApplication_init bench_library zero_income_application =
       Inr (scenario_record\<lparr>annualIncome := 0\<rparr>)"
proof -
  have h1: "fst (load_policy_text bench_library (bench_services approved_text) ''loan_policy.pdf''
          (bench_world incomplete_application)) = Inr policy_document"
    by (rule bench_load)
  have h3: "LoanApplication_init bench_library (heap (bench_world incomplete_application) 0) =
       Inl (ValidationError [(''annualIncome'', Missing)])"
    by (simp add: bench_heap bench_validate_incomplete)
  show ?thesis
    using h1 policy_document_not_empty bench_validate_incomplete bench_validate_zero_income
      process_rejected [OF h1 policy_document_not_empty h3]
    by simp
qed

text \<open>
  C2. The output parser does not restrict the value of \<^verbatim>\<open>decision\<close>. When the answer of the
  language model holds a JSON object whose \<^verbatim>\<open>decision\<close>, \<^verbatim>\<open>reasoning\<close> and \<^verbatim>\<open>riskLevel\<close> are
  strings and whose \<^verbatim>\<open>appliedRules\<close> is a list of strings, the call returns those four
  values, whatever string \<^verbatim>\<open>decision\<close> is. When the parser fails, the call returns the
  fallback record built from the parser's exception, whose \<^verbatim>\<open>decision\<close> is "denied".
\<close>

theorem decision_string_not_restricted:
  assumes "fst (load_policy_text lib svc pdf_path w) = Inr policy_text"
    and "policy_text \<noteq> []"
    and "LoanApplication_init lib (heap w application_data) = Inr application"
    and "format_messages (main_prompt self)
           [(''policy_text'', policy_text),
            (''application_data'',
               json_dumps lib 2 0 (PyDict (LoanApplication_dict application))),
            (''format_instructions'', get_format_instructions lib)] = Inr prompt"
    and "ChatOpenAI_invoke svc (snd (load_policy_text lib svc pdf_path w)) (llm self) prompt =
           Inr content"
  shows "(parse_json lib content = Some (PyDict kvs)
          \<and> map_of kvs ''decision'' = Some (PyStr s)
          \<and> map_of kvs ''reasoning'' = Some (PyStr rsn)
          \<and> map_of kvs ''riskLevel'' = Some (PyStr rl)
          \<and> map_of kvs ''appliedRules'' = Some (PyList (map PyStr rules))
          \<longrightarrow> fst (process_loan_application lib svc self pdf_path application_data w) =
                Inr [(''decision'', PyStr s),
                     (''reasoning'', PyStr rsn),
                     (''riskLevel'', PyStr rl),
                     (''appliedRules'', PyList (map PyStr rules))])
         \<and> (PydanticOutputParser_parse lib content = Inl e
          \<longrightarrow> fst (process_loan_application lib svc self pdf_path application_data w) =
                Inr [(''decision'', PyStr ''denied''),
                     (''reasoning'', PyStr (''Error processing application: '' @ exn_str lib e)),
                     (''riskLevel'', PyStr ''high''),
                     (''appliedRules'', PyList [PyStr ''Error handling rule''])])"
proof -
  let ?w1 = "snd (load_policy_text lib svc pdf_path w)"
  let ?suite = "process_loan_application_try lib svc self policy_text application ?w1"
  have run: "fst ?suite =
      (case PydanticOutputParser_parse lib content of
         Inl e \<Rightarrow> Inl e
       | Inr d \<Rightarrow> Inr (decision_result d))"
    by (rule try_answered(1) [OF assms(4) assms(5)])
  have whole: "process_loan_application lib svc self pdf_path application_data w =
      (case ?suite of
         (Inr result, w2) \<Rightarrow> (Inr result, w2)
       | (Inl e, w2) \<Rightarrow>
           (Inr (error_fallback lib e),
            print (''Error processing application: '' @ exn_str lib e) w2))"
    by (rule process_validated [OF assms(1) assms(2) assms(3)])
  have accepted: "fst (process_loan_application lib svc self pdf_path application_data w) =
      Inr [(''decision'', PyStr s), (''reasoning'', PyStr rsn), (''riskLevel'', PyStr rl),
           (''appliedRules'', PyList (map PyStr rules))]"
    if "parse_json lib content = Some (PyDict kvs)"
      and "map_of kvs ''decision'' = Some (PyStr s)"
      and "map_of kvs ''reasoning'' = Some (PyStr rsn)"
      and "map_of kvs ''riskLevel'' = Some (PyStr rl)"
      and "map_of kvs ''appliedRules'' = Some (PyList (map PyStr rules))"
  proof -
    have "PydanticOutputParser_parse lib content =
        Inr \<lparr>decision = s, reasoning = rsn, riskLevel = rl, appliedRules = rules\<rparr>"
      using that(1) LoanDecision_validate_strings [OF that(2) that(3) that(4) that(5), of lib]
      by (simp add: PydanticOutputParser_parse_def)
    with run whole show ?thesis
      by (cases ?suite) (simp add: decision_result_def)
  qed
  have failed: "fst (process_loan_application lib svc self pdf_path application_data w) =
      Inr [(''decision'', PyStr ''denied''),
           (''reasoning'', PyStr (''Error processing application: '' @ exn_str lib e)),
           (''riskLevel'', PyStr ''high''),
           (''appliedRules'', PyList [PyStr ''Error handling rule''])]"
    if "PydanticOutputParser_parse lib content = Inl e"
    using that run whole by (cases ?suite) (simp add: error_fallback_def)
  from accepted failed show ?thesis by blast
qed

theorem decision_string_not_restricted_witness:
  "fst (load_policy_text bench_library (bench_services maybe_text) ''loan_policy.pdf''
          (bench_world scenario_application)) = Inr policy_document
   \<and> fst (load_policy_text bench_library (bench_services ''I cannot decide.'') ''loan_policy.pdf''
          (bench_world scenario_application)) = Inr policy_document
   \<and> policy_document \<noteq> []
   \<and> LoanApplication_init bench_library (heap (bench_world scenario_application) 0) =
       Inr scenario_record
   \<and> parse_json bench_library maybe_text =
       Some (PyDict [(''decision'', PyStr ''maybe''), (''reasoning'', PyStr ''unsure''),
                     (''riskLevel'', PyStr ''medium''), (''appliedRules'', PyList (map PyStr []))])
   \<and> fst (process_loan_application bench_library (bench_services maybe_text) bench_agent
            ''loan_policy.pdf'' 0 (bench_world scenario_application)) =
       Inr [(''decision'', PyStr ''maybe''),
            (''reasoning'', PyStr ''unsure''),
            (''riskLevel'', PyStr ''medium''),
            (''appliedRules'', PyList (map PyStr []))]
   \<and> PydanticOutputParser_parse bench_library ''I cannot decide.'' =
       Inl (OutputParserException ''Invalid json output: I cannot decide.'')
   \<and> fst (process_loan_application bench_library (bench_services ''I cannot decide.'')
            bench_agent ''loan_policy.pdf'' 0 (bench_world scenario_application)) =
       Inr [(''decision'', PyStr ''denied''),
            (''reasoning'', PyStr (''Error processing application: ''
               @ exn_str bench_library
                   (OutputParserException ''Invalid json output: I cannot decide.''))),
            (''riskLevel'', PyStr ''high''),
            (''appliedRules'', PyList [PyStr ''Error handling rule''])]"
proof -
  have h1: "fst (load_policy_text bench_library (bench_services reply)
      ''loan_policy.pdf'' (bench_world scenario_application)) = Inr policy_document" for reply
    by (rule bench_load)
  have h3: "LoanApplication_init bench_library (heap (bench_world scenario_application) 0) =
      Inr scenario_record"
    by (simp add: bench_heap bench_validate_scenario)
  obtain prompt where h4:
    "format_messages (main_prompt bench_agent)
       [(''policy_text'', policy_document),
        (''application_data'',
           json_dumps bench_library 2 0 (PyDict (LoanApplication_dict scenario_record))),
        (''format_instructions'', get_format_instructions bench_library)] = Inr prompt"
    using bench_prompt by blast
  have h5: "ChatOpenAI_invoke (bench_services reply)
      (snd (load_policy_text bench_library (bench_services reply)
         ''loan_policy.pdf'' (bench_world scenario_application)))
      (llm bench_agent) prompt = Inr reply" for reply
    by (rule bench_invoke)
  have j: "parse_json bench_library maybe_text =
       Some (PyDict [(''decision'', PyStr ''maybe''), (''reasoning'', PyStr ''unsure''),
                     (''riskLevel'', PyStr ''medium''), (''appliedRules'', PyList (map PyStr []))])"
    by (simp add: bench_parse_json_maybe maybe_json_def)
  have a: "fst (process_loan_application bench_library (bench_services maybe_text) bench_agent
            ''loan_policy.pdf'' 0 (bench_world scenario_application)) =
       Inr [(''decision'', PyStr ''maybe''),
            (''reasoning'', PyStr ''unsure''),
            (''riskLevel'', PyStr ''medium''),
            (''appliedRules'', PyList (map PyStr []))]"
    using decision_string_not_restricted [OF h1 policy_document_not_empty h3 h4 h5,
        where kvs = "[(''decision'', PyStr ''maybe''), (''reasoning'', PyStr ''unsure''),
                     (''riskLevel'', PyStr ''medium''), (''appliedRules'', PyList (map PyStr []))]"
          and s = "''maybe''" and rsn = "''unsure''" and rl = "''medium''" and rules = "[]"]
      j
    by simp
  have b: "fst (process_loan_application bench_library (bench_services ''I cannot decide.'')
            bench_agent ''loan_policy.pdf'' 0 (bench_world scenario_application)) =
       Inr [(''decision'', PyStr ''denied''),
            (''reasoning'', PyStr (''Error processing application: ''
               @ exn_str bench_library
                   (OutputParserException ''Invalid json output: I cannot decide.''))),
            (''riskLevel'', PyStr ''high''),
            (''appliedRules'', PyList [PyStr ''Error handling rule''])]"
    using decision_string_not_restricted [OF h1 policy_document_not_empty h3 h4 h5,
        where e = "OutputParserException ''Invalid json output: I cannot decide.''"]
      bench_parse_garbage
    by simp
  from h1 policy_document_not_empty h3 j a bench_parse_garbage b show ?thesis
    by blast
qed

text \<open>
  The claim fails on an answer whose \<^verbatim>\<open>decision\<close> is "maybe": the parser accepts it and
  the call returns a record whose \<^verbatim>\<open>decision\<close> is "maybe".
\<close>

theorem decision_maybe_surfaces:
  "parse_json bench_library maybe_text = Some maybe_json
   \<and> PydanticOutputParser_parse bench_library maybe_text =
       Inr \<lparr>decision = ''maybe'', reasoning = ''unsure'', riskLevel = ''medium'',
            appliedRules = []\<rparr>
   \<and> fst (process_loan_application bench_library (bench_services maybe_text)
        bench_agent ''loan_policy.pdf'' 0 (bench_world scenario_application)) =
       Inr [(''decision'', PyStr ''maybe''),
            (''reasoning'', PyStr ''unsure''),
            (''riskLevel'', PyStr ''medium''),
            (''appliedRules'', PyList [])]"
proof -
  have h1: "fst (load_policy_text bench_library (bench_services maybe_text)
      ''loan_policy.pdf'' (bench_world scenario_application)) = Inr policy_document"
    by (rule bench_load)
  have h3: "LoanApplication_init bench_library (heap (bench_world scenario_application) 0) =
      Inr scenario_record"
    by (simp add: bench_heap bench_validate_scenario)
  obtain prompt where h4:
    "format_messages (main_prompt bench_agent)
       [(''policy_text'', policy_document),
        (''application_data'',
           json_dumps bench_library 2 0 (PyDict (LoanApplication_dict scenario_record))),
        (''format_instructions'', get_format_instructions bench_library)] = Inr prompt"
    using bench_prompt by blast
  have h5: "ChatOpenAI_invoke (bench_services maybe_text)
      (snd (load_policy_text bench_library (bench_services maybe_text)
         ''loan_policy.pdf'' (bench_world scenario_application)))
      (llm bench_agent) prompt = Inr maybe_text"
    by (rule bench_invoke)
  have "fst (process_loan_application_try bench_library (bench_services maybe_text) bench_agent
          policy_document scenario_record
          (snd (load_policy_text bench_library (bench_services maybe_text)
             ''loan_policy.pdf'' (bench_world scenario_application)))) =
        Inr (decision_result \<lparr>decision = ''maybe'', reasoning = ''unsure'',
               riskLevel = ''medium'', appliedRules = []\<rparr>)"
    using try_answered(1) [OF h4 h5] bench_parse_maybe by simp
  then have "fst (process_loan_application bench_library (bench_services maybe_text) bench_agent
            ''loan_policy.pdf'' 0 (bench_world scenario_application)) =
       Inr (decision_result \<lparr>decision = ''maybe'', reasoning = ''unsure'',
               riskLevel = ''medium'', appliedRules = []\<rparr>)"
    using process_validated [OF h1 policy_document_not_empty h3, of bench_agent]
    by (cases "process_loan_application_try bench_library (bench_services maybe_text) bench_agent
          policy_document scenario_record
          (snd (load_policy_text bench_library (bench_services maybe_text)
             ''loan_policy.pdf'' (bench_world scenario_application)))") simp
  then show ?thesis
    using bench_parse_json_maybe bench_parse_maybe by (simp add: decision_result_def)
qed

text \<open>
  C3. When the document loader returns the empty string, whatever the applicant mapping
  holds, the call returns the fixed record with \<^verbatim>\<open>decision\<close> "denied", \<^verbatim>\<open>riskLevel\<close> "high",
  \<^verbatim>\<open>reasoning\<close> "Error loading policy document" and \<^verbatim>\<open>appliedRules\<close> ["Error handling rule"],
  and the language model is not invoked.
\<close>

theorem empty_policy_fallback:
  assumes "fst (load_policy_text lib svc pdf_path w) = Inr []"
  shows "fst (process_loan_application lib svc self pdf_path application_data w) =
           Inr [(''decision'', PyStr ''denied''),
                (''reasoning'', PyStr ''Error loading policy document''),
                (''riskLevel'', PyStr ''high''),
                (''appliedRules'', PyList [PyStr ''Error handling rule''])]
         \<and> llm_calls (snd (process_loan_application lib svc self pdf_path application_data w)) =
             llm_calls w"
  using process_empty_policy [OF assms]
    load_policy_text_llm_calls [of lib svc pdf_path w]
  by (simp add: policy_fallback_def)

theorem empty_policy_fallback_witness:
  "fst (load_policy_text bench_library (bench_services approved_text) ''missing.pdf''
          (bench_world incomplete_application)) = Inr []
   \<and> fst (process_loan_application bench_library (bench_services approved_text) bench_agent
            ''missing.pdf'' 0 (bench_world incomplete_application)) =
           Inr [(''decision'', PyStr ''denied''),
                (''reasoning'', PyStr ''Error loading policy document''),
                (''riskLevel'', PyStr ''high''),
                (''appliedRules'', PyList [PyStr ''Error handling rule''])]
   \<and> llm_calls (snd (process_loan_application bench_library (bench_services approved_text)
          bench_agent ''missing.pdf'' 0 (bench_world incomplete_application))) =
       llm_calls (bench_world incomplete_application)"
proof -
  have h: "fst (load_policy_text bench_library (bench_services approved_text) ''missing.pdf''
          (bench_world incomplete_application)) = Inr []"
    by (rule bench_load_missing)
  show ?thesis
    using h empty_policy_fallback [OF h] by simp
qed

text \<open>
  The record returned for an unreadable document is not the one the claim gives: its
  \<^verbatim>\<open>reasoning\<close> is not "policy document unavailable".
\<close>

theorem empty_policy_reasoning_differs:
  "fst (load_policy_text bench_library (bench_services approved_text) ''missing.pdf''
          (bench_world scenario_application)) = Inr []
   \<and> fst (process_loan_application bench_library (bench_services approved_text) bench_agent
            ''missing.pdf'' 0 (bench_world scenario_application)) \<noteq>
           Inr [(''decision'', PyStr ''denied''),
                (''reasoning'', PyStr ''policy document unavailable''),
                (''riskLevel'', PyStr ''high''),
                (''appliedRules'', PyList [PyStr ''Error handling rule''])]"
proof -
  have h: "fst (load_policy_text bench_library (bench_services approved_text) ''missing.pdf''
          (bench_world scenario_application)) = Inr []"
    by (rule bench_load_missing)
  show ?thesis
    using h process_empty_policy [OF h] by (simp add: policy_fallback_def)
qed

text \<open>
  C4. Every record the call returns has exactly the four keys \<^verbatim>\<open>decision\<close>, \<^verbatim>\<open>reasoning\<close>,
  \<^verbatim>\<open>riskLevel\<close> and \<^verbatim>\<open>appliedRules\<close>; and when the call leaves through a fallback, the
  record has \<^verbatim>\<open>decision\<close> "denied", \<^verbatim>\<open>riskLevel\<close> "high" and the marker
  "Error handling rule" among its \<^verbatim>\<open>appliedRules\<close>.
\<close>

theorem returned_record_shape:
  assumes "fst (process_loan_application lib svc self pdf_path application_data w) = Inr result"
  shows "map fst result = [''decision'', ''reasoning'', ''riskLevel'', ''appliedRules'']
         \<and> (fallback_taken lib svc self pdf_path application_data w \<longrightarrow>
              map_of result ''decision'' = Some (PyStr ''denied'')
              \<and> map_of result ''riskLevel'' = Some (PyStr ''high'')
              \<and> (\<exists>rules. map_of result ''appliedRules'' = Some (PyList rules)
                    \<and> PyStr ''Error handling rule'' \<in> set rules))"
proof -
  obtain x w1 where l: "load_policy_text lib svc pdf_path w = (x, w1)"
    by (cases "load_policy_text lib svc pdf_path w")
  obtain policy_text where x: "x = Inr policy_text"
    using load_policy_text_value [of lib svc pdf_path w] l by simp
  show ?thesis
  proof (cases "policy_text = []")
    case True
    with assms l x have "result = policy_fallback"
      by (simp add: process_loan_application_def)
    then show ?thesis by (simp add: policy_fallback_def)
  next
    case False
    show ?thesis
    proof (cases "LoanApplication_init lib (heap w1 application_data)")
      case (Inl e)
      with assms l x False show ?thesis
        by (simp add: process_loan_application_def)
    next
      case (Inr application)
      obtain y w2 where t:
        "process_loan_application_try lib svc self policy_text application w1 = (y, w2)"
        by (cases "process_loan_application_try lib svc self policy_text application w1")
      show ?thesis
      proof (cases y)
        case (Inl e)
        with assms l x False Inr t have "result = error_fallback lib e"
          by (simp add: process_loan_application_def)
        then show ?thesis by (simp add: error_fallback_def)
      next
        case r: (Inr res)
        with assms l x False Inr t have "result = res"
          by (simp add: process_loan_application_def)
        moreover obtain d where "res = decision_result d"
          using try_returns_decision [of lib svc self policy_text application w1 res] t r
          by auto
        moreover have "\<not> fallback_taken lib svc self pdf_path application_data w"
          using l x False Inr t r by (simp add: fallback_taken_def)
        ultimately show ?thesis by (simp add: decision_result_def)
      qed
    qed
  qed
qed

theorem returned_record_shape_witness:
  "fst (process_loan_application bench_library (bench_services approved_text) bench_agent
          ''missing.pdf'' 0 (bench_world scenario_application)) =
     Inr [(''decision'', PyStr ''denied''),
          (''reasoning'', PyStr ''Error loading policy document''),
          (''riskLevel'', PyStr ''high''),
          (''appliedRules'', PyList [PyStr ''Error handling rule''])]
   \<and> fallback_taken bench_library (bench_services approved_text) bench_agent
          ''missing.pdf'' 0 (bench_world scenario_application)
   \<and> map fst [(''decision'', PyStr ''denied''),
          (''reasoning'', PyStr ''Error loading policy document''),
          (''riskLevel'', PyStr ''high''),
          (''appliedRules'', PyList [PyStr ''Error handling rule''])] =
       [''decision'', ''reasoning'', ''riskLevel'', ''appliedRules'']
   \<and> PyStr ''Error handling rule'' \<in> set [PyStr ''Error handling rule'']"
proof -
  have h: "fst (load_policy_text bench_library (bench_services approved_text) ''missing.pdf''
          (bench_world scenario_application)) = Inr []"
    by (rule bench_load_missing)
  have r: "fst (process_loan_application bench_library (bench_services approved_text) bench_agent
          ''missing.pdf'' 0 (bench_world scenario_application)) =
     Inr [(''decision'', PyStr ''denied''),
          (''reasoning'', PyStr ''Error loading policy document''),
          (''riskLevel'', PyStr ''high''),
          (''appliedRules'', PyList [PyStr ''Error handling rule''])]"
    using process_empty_policy [OF h] by (simp add: policy_fallback_def)
  have f: "fallback_taken bench_library (bench_services approved_text) bench_agent
          ''missing.pdf'' 0 (bench_world scenario_application)"
    using h
    by (cases "load_policy_text bench_library (bench_services approved_text) ''missing.pdf''
          (bench_world scenario_application)") (simp add: fallback_taken_def)
  show ?thesis
    using r f returned_record_shape [OF r] by simp
qed

text \<open>
  C5. The runner computes the debt-to-income ratio as
  \<^verbatim>\<open>monthlyDebt * 12 / annualIncome * 100\<close>, which for a \<^verbatim>\<open>monthlyDebt\<close> of 2000.0 and an
  \<^verbatim>\<open>annualIncome\<close> of 75000.0 is exactly 32.0 in binary64 arithmetic. The prompt is not given
  the ratio: for the applicant "APP_USER_001" with those values, the human message is the
  fixed text around the JSON rendering of the eight fields of the record.
\<close>

theorem dti_and_application_segment:
  assumes "map_of d ''applicantId'' = Some (PyStr ''APP_USER_001'')"
    and "map_of d ''monthlyDebt'' = Some (PyFloat 2000)"
    and "map_of d ''annualIncome'' = Some (PyFloat 75000)"
    and "LoanApplication_init lib d = Inr a"
  shows \<open>dti d = Inr (PyFloat 32)
         \<and> format_pieces
             [(''policy_text'', p),
              (''application_data'', json_dumps lib 2 0 (PyDict (LoanApplication_dict a))),
              (''format_instructions'', f)] human_template =
           Inr (''Loan Application Data:\<newline>''
                @ ''            {\<newline>''
                @ ''  "applicantId": "APP_USER_001",\<newline>''
                @ ''  "requestedAmount": '' @ float_repr lib (requestedAmount a) @ '',\<newline>''
                @ ''  "annualIncome": '' @ float_repr lib 75000 @ '',\<newline>''
                @ ''  "monthlyDebt": '' @ float_repr lib 2000 @ '',\<newline>''
                @ ''  "creditScore": '' @ show_int (creditScore a) @ '',\<newline>''
                @ ''  "employmentMonths": '' @ show_int (employmentMonths a) @ '',\<newline>''
                @ ''  "isFirstTimeBuyer": ''
                @ (if isFirstTimeBuyer a then ''true'' else ''false'') @ '',\<newline>''
                @ ''  "isSelfEmployed": ''
                @ (if isSelfEmployed a then ''true'' else ''false'') @ ''\<newline>''
                @ ''}\<newline>''
                @ ''\<newline>''
                @ ''            Please analyze the policy and make a loan decision.'')\<close>
proof -
  have id: "applicantId a = ''APP_USER_001''"
    using LoanApplication_init_fields(1) [OF assms(4)] assms(1)
    by (simp add: field_def validate_str_def)
  have md: "monthlyDebt a = 2000"
    using LoanApplication_init_fields(4) [OF assms(4)] assms(2)
    by (simp add: field_def validate_float_def)
  have ai: "annualIncome a = 75000"
    using LoanApplication_init_fields(3) [OF assms(4)] assms(3)
    by (simp add: field_def validate_float_def)
  have ratio: "dti d = Inr (PyFloat 32)"
    by (rule dti_floats [OF assms(2) assms(3)])
  have segment: \<open>format_pieces
             [(''policy_text'', p),
              (''application_data'', json_dumps lib 2 0 (PyDict (LoanApplication_dict a))),
              (''format_instructions'', f)] human_template =
           Inr (''Loan Application Data:\<newline>''
                @ ''            {\<newline>''
                @ ''  "applicantId": "APP_USER_001",\<newline>''
                @ ''  "requestedAmount": '' @ float_repr lib (requestedAmount a) @ '',\<newline>''
                @ ''  "annualIncome": '' @ float_repr lib 75000 @ '',\<newline>''
                @ ''  "monthlyDebt": '' @ float_repr lib 2000 @ '',\<newline>''
                @ ''  "creditScore": '' @ show_int (creditScore a) @ '',\<newline>''
                @ ''  "employmentMonths": '' @ show_int (employmentMonths a) @ '',\<newline>''
                @ ''  "isFirstTimeBuyer": ''
                @ (if isFirstTimeBuyer a then ''true'' else ''false'') @ '',\<newline>''
                @ ''  "isSelfEmployed": ''
                @ (if isSelfEmployed a then ''true'' else ''false'') @ ''\<newline>''
                @ ''}\<newline>''
                @ ''\<newline>''
                @ ''            Please analyze the policy and make a loan decision.'')\<close>
    by (simp add: human_template_def LoanApplication_dict_def id md ai
        newline_indent_2_0 newline_indent_2_1 json_str_def json_escape_char_def)
  from ratio segment show ?thesis by (rule conjI)
qed

theorem dti_and_application_segment_witness:
  "map_of scenario_application ''applicantId'' = Some (PyStr ''APP_USER_001'')
   \<and> map_of scenario_application ''monthlyDebt'' = Some (PyFloat 2000)
   \<and> map_of scenario_application ''annualIncome'' = Some (PyFloat 75000)
   \<and> LoanApplication_init bench_library scenario_application = Inr scenario_record
   \<and> dti scenario_application = Inr (PyFloat 32)
   \<and> format_pieces
        [(''policy_text'', policy_document),
         (''application_data'',
            json_dumps bench_library 2 0 (PyDict (LoanApplication_dict scenario_record))),
         (''format_instructions'', get_format_instructions bench_library)] human_template =
       Inr scenario_human_message"
proof -
  have h1: "map_of scenario_application ''applicantId'' = Some (PyStr ''APP_USER_001'')"
    by (simp add: scenario_application_def)
  have h2: "map_of scenario_application ''monthlyDebt'' = Some (PyFloat 2000)"
    by (simp add: scenario_application_def)
  have h3: "map_of scenario_application ''annualIncome'' = Some (PyFloat 75000)"
    by (simp add: scenario_application_def)
  have "dti scenario_application = Inr (PyFloat 32)"
    using dti_and_application_segment [OF h1 h2 h3 bench_validate_scenario] by simp
  with h1 h2 h3 bench_validate_scenario bench_json show ?thesis
    by simp
qed

text \<open>
  The claim fails on the record of the runner's defaults: its ratio is 32.0, and the
  human message of its prompt contains neither "32.0" nor any other digits "32".
\<close>

theorem application_segment_without_dti:
  "LoanApplication_init bench_library scenario_application = Inr scenario_record
   \<and> dti scenario_application = Inr (PyFloat 32)
   \<and> format_pieces
        [(''policy_text'', policy_document),
         (''application_data'',
            json_dumps bench_library 2 0 (PyDict (LoanApplication_dict scenario_record))),
         (''format_instructions'', get_format_instructions bench_library)] human_template =
       Inr scenario_human_message
   \<and> \<not> sublist ''32.0'' scenario_human_message
   \<and> \<not> sublist ''32'' scenario_human_message"
proof -
  have a: "dti scenario_application = Inr (PyFloat 32)"
    by (rule dti_floats) (simp_all add: scenario_application_def)
  have b: "\<not> sublist ''32'' scenario_human_message"
    by (simp add: scenario_human_message_def sublist_code prefix_code)
  have c: "\<not> sublist ''32.0'' scenario_human_message"
    by (simp add: scenario_human_message_def sublist_code prefix_code)
  from bench_validate_scenario a bench_json b c show ?thesis by simp
qed

text \<open>
  C6. Whenever the output parser succeeds, the record returned has \<^verbatim>\<open>decision\<close>,
  \<^verbatim>\<open>reasoning\<close>, \<^verbatim>\<open>riskLevel\<close> and \<^verbatim>\<open>appliedRules\<close> equal to those of the parsed decision.
  (The parser runs once the policy text is loaded and not empty, the applicant mapping is
  validated, the prompt is formatted and the language model has answered.)
\<close>

theorem pass_through_fidelity:
  assumes "fst (load_policy_text lib svc pdf_path w) = Inr policy_text"
    and "policy_text \<noteq> []"
    and "LoanApplication_init lib (heap w application_data) = Inr application"
    and "format_messages (main_prompt self)
           [(''policy_text'', policy_text),
            (''application_data'',
               json_dumps lib 2 0 (PyDict (LoanApplication_dict application))),
            (''format_instructions'', get_format_instructions lib)] = Inr prompt"
    and "ChatOpenAI_invoke svc (snd (load_policy_text lib svc pdf_path w)) (llm self) prompt =
           Inr content"
    and "PydanticOutputParser_parse lib content = Inr d"
  shows "fst (process_loan_application lib svc self pdf_path application_data w) =
           Inr [(''decision'', PyStr (decision d)),
                (''reasoning'', PyStr (reasoning d)),
                (''riskLevel'', PyStr (riskLevel d)),
                (''appliedRules'', PyList (map PyStr (appliedRules d)))]"
proof -
  let ?w1 = "snd (load_policy_text lib svc pdf_path w)"
  have "fst (process_loan_application_try lib svc self policy_text application ?w1) =
          Inr (decision_result d)"
    using try_answered(1) [OF assms(4) assms(5)] assms(6) by simp
  then show ?thesis
    using process_validated [OF assms(1) assms(2) assms(3), of self]
    by (cases "process_loan_application_try lib svc self policy_text application ?w1")
      (simp add: decision_result_def)
qed

theorem pass_through_fidelity_witness:
  "fst (load_policy_text bench_library (bench_services approved_text) ''loan_policy.pdf''
          (bench_world scenario_application)) = Inr policy_document
   \<and> policy_document \<noteq> []
   \<and> LoanApplication_init bench_library (heap (bench_world scenario_application) 0) =
       Inr scenario_record
   \<and> (\<exists>prompt.
        format_messages (main_prompt bench_agent)
           [(''policy_text'', policy_document),
            (''application_data'',
               json_dumps bench_library 2 0 (PyDict (LoanApplication_dict scenario_record))),
            (''format_instructions'', get_format_instructions bench_library)] = Inr prompt
        \<and> ChatOpenAI_invoke (bench_services approved_text)
             (snd (load_policy_text bench_library (bench_services approved_text)
                ''loan_policy.pdf'' (bench_world scenario_application)))
             (llm bench_agent) prompt = Inr approved_text)
   \<and> PydanticOutputParser_parse bench_library approved_text = Inr approved_decision
   \<and> fst (process_loan_application bench_library (bench_services approved_text) bench_agent
            ''loan_policy.pdf'' 0 (bench_world scenario_application)) =
       Inr [(''decision'', PyStr ''approved''),
            (''reasoning'', PyStr ''DTI 32% is below 40%''),
            (''riskLevel'', PyStr ''low''),
            (''appliedRules'', PyList [PyStr ''credit score'', PyStr ''DTI ceiling''])]"
proof -
  have h1: "fst (load_policy_text bench_library (bench_services approved_text)
      ''loan_policy.pdf'' (bench_world scenario_application)) = Inr policy_document"
    by (rule bench_load)
  have h3: "LoanApplication_init bench_library (heap (bench_world scenario_application) 0) =
      Inr scenario_record"
    by (simp add: bench_heap bench_validate_scenario)
  obtain prompt where h4:
    "format_messages (main_prompt bench_agent)
       [(''policy_text'', policy_document),
        (''application_data'',
           json_dumps bench_library 2 0 (PyDict (LoanApplication_dict scenario_record))),
        (''format_instructions'', get_format_instructions bench_library)] = Inr prompt"
    using bench_prompt by blast
  have h5: "ChatOpenAI_invoke (bench_services approved_text)
      (snd (load_policy_text bench_library (bench_services approved_text)
         ''loan_policy.pdf'' (bench_world scenario_application)))
      (llm bench_agent) prompt = Inr approved_text"
    by (rule bench_invoke)
  have "fst (process_loan_application bench_library (bench_services approved_text) bench_agent
            ''loan_policy.pdf'' 0 (bench_world scenario_application)) =
       Inr [(''decision'', PyStr ''approved''),
            (''reasoning'', PyStr ''DTI 32% is below 40%''),
            (''riskLevel'', PyStr ''low''),
            (''appliedRules'', PyList [PyStr ''credit score'', PyStr ''DTI ceiling''])]"
    using pass_through_fidelity [OF h1 policy_document_not_empty h3 h4 h5 bench_parse_approved]
    by (simp add: approved_decision_def)
  with h1 policy_document_not_empty h3 h4 h5 bench_parse_approved show ?thesis
    by blast
qed

text \<open>
  C7. The prompt is a function of the policy text, the validated applicant record and
  the schema description alone: two calls, on any two worlds, documents, language models
  and agents, that load the same policy text and validate the same applicant record send
  the same messages to the language model.
\<close>

theorem prompt_deterministic:
  assumes "fst (load_policy_text lib svc1 pdf_path1 w1) = Inr policy_text"
    and "fst (load_policy_text lib svc2 pdf_path2 w2) = Inr policy_text"
    and "policy_text \<noteq> []"
    and "LoanApplication_init lib (heap w1 application_data1) = Inr application"
    and "LoanApplication_init lib (heap w2 application_data2) = Inr application"
    and "LoanAgent_init environ1 key1 model1 = Inr self1"
    and "LoanAgent_init environ2 key2 model2 = Inr self2"
  shows "\<exists>prompt.
           llm_calls (snd (process_loan_application lib svc1 self1 pdf_path1 application_data1 w1))
             = llm_calls w1 @ [(llm self1, prompt)]
         \<and> llm_calls (snd (process_loan_application lib svc2 self2 pdf_path2 application_data2 w2))
             = llm_calls w2 @ [(llm self2, prompt)]"
proof -
  obtain prompt where p:
    "format_messages main_prompt_template
       [(''policy_text'', policy_text),
        (''application_data'',
           json_dumps lib 2 0 (PyDict (LoanApplication_dict application))),
        (''format_instructions'', get_format_instructions lib)] = Inr prompt"
    using format_main_prompt by blast
  have p1: "format_messages (main_prompt self1)
       [(''policy_text'', policy_text),
        (''application_data'',
           json_dumps lib 2 0 (PyDict (LoanApplication_dict application))),
        (''format_instructions'', get_format_instructions lib)] = Inr prompt"
    using p LoanAgent_init_main_prompt [OF assms(6)] by simp
  have p2: "format_messages (main_prompt self2)
       [(''policy_text'', policy_text),
        (''application_data'',
           json_dumps lib 2 0 (PyDict (LoanApplication_dict application))),
        (''format_instructions'', get_format_instructions lib)] = Inr prompt"
    using p LoanAgent_init_main_prompt [OF assms(7)] by simp
  show ?thesis
    using process_sends_prompt [OF assms(1) assms(3) assms(4) p1]
      process_sends_prompt [OF assms(2) assms(3) assms(5) p2]
    by blast
qed

theorem prompt_deterministic_witness:
  "fst (load_policy_text bench_library (bench_services approved_text) ''loan_policy.pdf''
          (bench_world scenario_application)) = Inr policy_document
   \<and> fst (load_policy_text bench_library (bench_services maybe_text) ''loan_policy.pdf''
          (print ''an earlier line'' (bench_world scenario_application))) = Inr policy_document
   \<and> policy_document \<noteq> []
   \<and> LoanApplication_init bench_library (heap (bench_world scenario_application) 0) =
       Inr scenario_record
   \<and> LoanApplication_init bench_library
         (heap (print ''an earlier line'' (bench_world scenario_application)) 7) =
       Inr scenario_record
   \<and> LoanAgent_init Map.empty (Some ''sk-test'') default_model_name = Inr bench_agent
   \<and> LoanAgent_init (Map.empty(''OPENAI_API_KEY'' \<mapsto> ''sk-env'')) None ''gpt-4'' =
       Inr other_agent
   \<and> (\<exists>prompt.
         llm_calls (snd (process_loan_application bench_library (bench_services approved_text)
            bench_agent ''loan_policy.pdf'' 0 (bench_world scenario_application)))
           = llm_calls (bench_world scenario_application) @ [(llm bench_agent, prompt)]
       \<and> llm_calls (snd (process_loan_application bench_library (bench_services maybe_text)
            other_agent ''loan_policy.pdf'' 7
            (print ''an earlier line'' (bench_world scenario_application))))
           = llm_calls (print ''an earlier line'' (bench_world scenario_application))
             @ [(llm other_agent, prompt)])"
proof -
  have h1: "fst (load_policy_text bench_library (bench_services reply) ''loan_policy.pdf'' w) =
      Inr policy_document" for reply w
    by (rule bench_load)
  have h4: "LoanApplication_init bench_library (heap (bench_world scenario_application) 0) =
       Inr scenario_record"
    by (simp add: bench_heap bench_validate_scenario)
  have h5: "LoanApplication_init bench_library
         (heap (print ''an earlier line'' (bench_world scenario_application)) 7) =
       Inr scenario_record"
    by (simp add: print_def bench_world_def bench_validate_scenario)
  show ?thesis
    using h1 policy_document_not_empty h4 h5 bench_agent_init other_agent_init
      prompt_deterministic [OF h1 h1 policy_document_not_empty h4 h5
        bench_agent_init other_agent_init]
    by simp
qed

text \<open>
  C8. \<^verbatim>\<open>load_policy_text\<close> never raises: it returns the pages joined by blank lines, or
  the empty string when the PDF loader raised; and it asks the loader once.
\<close>

theorem load_policy_text_never_raises:
  "fst (load_policy_text lib svc pdf_path w) =
     Inr (case PyPDFLoader_load svc w pdf_path of
            Inl e \<Rightarrow> []
          | Inr documents \<Rightarrow> join [CHR 0x0A, CHR 0x0A] documents)
   \<and> pdf_loads (snd (load_policy_text lib svc pdf_path w)) = pdf_loads w @ [pdf_path]"
  by (simp add: load_policy_text_value load_policy_text_pdf_loads)

text \<open>
  C9. Without a credential, neither as argument nor in the environment (absent or the
  empty string), the constructor raises \<^verbatim>\<open>ValueError\<close>: no agent exists on which
  \<^verbatim>\<open>process_loan_application\<close> could return a fallback record.
\<close>

theorem missing_credential_is_fatal:
  assumes "\<not> truthy key" and "\<not> truthy (environ ''OPENAI_API_KEY'')"
  shows "LoanAgent_init environ key model = Inl (ValueError missing_key_message)"
  using assms by (auto simp: LoanAgent_init_def truthy_def split: option.splits)

theorem missing_credential_is_fatal_witness:
  "\<not> truthy None \<and> \<not> truthy (Map.empty ''OPENAI_API_KEY'')
   \<and> LoanAgent_init Map.empty None default_model_name = Inl (ValueError missing_key_message)"
proof -
  have a: "\<not> truthy None" by (simp add: truthy_def)
  have b: "\<not> truthy (Map.empty ''OPENAI_API_KEY'')" by (simp add: truthy_def)
  show ?thesis using a b missing_credential_is_fatal [OF a b] by simp
qed

text \<open>
  C10. The call leaves the caller's dicts as they were: the heap after the call is the
  heap before it, so the applicant mapping has the keys and values it had.
\<close>

theorem application_data_not_mutated:
  "heap (snd (process_loan_application lib svc self pdf_path application_data w)) = heap w"
proof -
  obtain x w1 where l: "load_policy_text lib svc pdf_path w = (x, w1)"
    by (cases "load_policy_text lib svc pdf_path w")
  then have h1: "heap w1 = heap w"
    using load_policy_text_heap [of lib svc pdf_path w] by simp
  show ?thesis
  proof (cases x)
    case (Inl e)
    with l h1 show ?thesis by (simp add: process_loan_application_def)
  next
    case (Inr policy_text)
    show ?thesis
    proof (cases "LoanApplication_init lib (heap w1 application_data)")
      case (Inl e)
      with l h1 Inr show ?thesis by (simp add: process_loan_application_def)
    next
      case v: (Inr application)
      obtain y w2 where t:
        "process_loan_application_try lib svc self policy_text application w1 = (y, w2)"
        by (cases "process_loan_application_try lib svc self policy_text application w1")
      then have "heap w2 = heap w1"
        using try_heap [of lib svc self policy_text application w1] by simp
      with l h1 Inr v t show ?thesis
        by (cases y) (simp_all add: process_loan_application_def print_def)
    qed
  qed
qed

end
